theory Spec2Isabelle
  imports Complex_Main "HOL-Library.Word"
begin

section \<open>Conventions of the embedding\<close>

text \<open>
  The C sources \<^verbatim>\<open>links.c\<close> and \<^verbatim>\<open>shortcuts.c\<close> are embedded function by function.
  \<^item> \<^verbatim>\<open>unsigned int\<close> and \<^verbatim>\<open>int\<close> are 32-bit words where the source mixes the two or
    where a wrap-around is reachable (\<open>sc_navigate\<close>, \<open>sc_bisect\<close>, \<open>sc_adjust_window\<close>);
    \<open>unat\<close> reads a word as unsigned, \<open>sint\<close> as two's complement.
  \<^item> \<^verbatim>\<open>double\<close>, \<^verbatim>\<open>gdouble\<close> and \<^verbatim>\<open>float\<close> are \<open>real\<close>: rounding is not part of the
    model, every arithmetic expression is read as exact. Where the source divides by a
    value that can be zero (\<open>sc_adjust_window\<close>) the quotient is a \<open>c_double\<close>, which has
    the infinities and NaN.
  \<^item> a pointer that may be \<^verbatim>\<open>NULL\<close> is an \<open>option\<close>.
  \<^item> the \<^verbatim>\<open>g_return_val_if_fail\<close> guards at the top of every shortcut are
    preconditions: the functions below model the body after them.
\<close>

type_synonym u32 = "32 word"

section \<open>Links (\<^verbatim>\<open>links.c\<close>)\<close>

text \<open>
  The enumerations live in \<^verbatim>\<open>types.h\<close>, which is not among the sources read here; the
  constructors are the enumerators that \<^verbatim>\<open>links.c\<close> names. An enumeration value that is
  none of them (C allows any integer) is \<open>ZATHURA_LINK_OTHER\<close>.
\<close>

datatype zathura_link_type =
    ZATHURA_LINK_INVALID
  | ZATHURA_LINK_NONE
  | ZATHURA_LINK_GOTO_DEST
  | ZATHURA_LINK_GOTO_REMOTE
  | ZATHURA_LINK_URI
  | ZATHURA_LINK_LAUNCH
  | ZATHURA_LINK_NAMED
  | ZATHURA_LINK_OTHER int

datatype zathura_link_destination_type =
    ZATHURA_LINK_DESTINATION_UNKNOWN
  | ZATHURA_LINK_DESTINATION_XYZ
  | ZATHURA_LINK_DESTINATION_OTHER int

record zathura_rectangle =
  x1 :: real
  y1 :: real
  x2 :: real
  y2 :: real

text \<open>
  \<open>zathura_link_target_t\<close>, with the fields that \<^verbatim>\<open>links.c\<close> reads. \<open>target_value\<close> is
  the \<^verbatim>\<open>char*\<close> member \<^verbatim>\<open>value\<close>: \<open>None\<close> is \<^verbatim>\<open>NULL\<close>, \<open>Some []\<close> is the empty string.
\<close>

record zathura_link_target =
  destination_type :: zathura_link_destination_type
  target_value :: "string option"
  page_number :: u32
  target_left :: real
  target_top :: real
  target_scale :: real

record zathura_link =
  link_position :: zathura_rectangle
  link_type :: zathura_link_type
  link_target :: zathura_link_target

text \<open>The target of a link fresh from \<^verbatim>\<open>g_malloc0\<close>: every member is zero.\<close>

definition zeroed_target :: zathura_link_target where
  "zeroed_target =
     \<lparr> destination_type = ZATHURA_LINK_DESTINATION_UNKNOWN, target_value = None,
       page_number = 0, target_left = 0, target_top = 0, target_scale = 0 \<rparr>"

text \<open>
  \<open>zathura_link_new\<close>: \<open>None\<close> is the \<^verbatim>\<open>NULL\<close> return. \<^verbatim>\<open>g_strdup\<close> copies the string, so
  the stored value equals the supplied one.
\<close>

fun zathura_link_new ::
  "zathura_link_type \<Rightarrow> zathura_rectangle \<Rightarrow> zathura_link_target \<Rightarrow> zathura_link option"
where
  "zathura_link_new ZATHURA_LINK_NONE position target =
     Some \<lparr> link_position = position, link_type = ZATHURA_LINK_NONE, link_target = target \<rparr>"
| "zathura_link_new ZATHURA_LINK_GOTO_DEST position target =
     Some \<lparr> link_position = position, link_type = ZATHURA_LINK_GOTO_DEST,
            link_target = target \<rparr>"
| "zathura_link_new ZATHURA_LINK_GOTO_REMOTE position target =
     (case target_value target of
        None \<Rightarrow> None
      | Some v \<Rightarrow> Some \<lparr> link_position = position, link_type = ZATHURA_LINK_GOTO_REMOTE,
                         link_target = zeroed_target \<lparr> target_value := Some v \<rparr> \<rparr>)"
| "zathura_link_new ZATHURA_LINK_URI position target =
     (case target_value target of
        None \<Rightarrow> None
      | Some v \<Rightarrow> Some \<lparr> link_position = position, link_type = ZATHURA_LINK_URI,
                         link_target = zeroed_target \<lparr> target_value := Some v \<rparr> \<rparr>)"
| "zathura_link_new ZATHURA_LINK_LAUNCH position target =
     (case target_value target of
        None \<Rightarrow> None
      | Some v \<Rightarrow> Some \<lparr> link_position = position, link_type = ZATHURA_LINK_LAUNCH,
                         link_target = zeroed_target \<lparr> target_value := Some v \<rparr> \<rparr>)"
| "zathura_link_new ZATHURA_LINK_NAMED position target =
     (case target_value target of
        None \<Rightarrow> None
      | Some v \<Rightarrow> Some \<lparr> link_position = position, link_type = ZATHURA_LINK_NAMED,
                         link_target = zeroed_target \<lparr> target_value := Some v \<rparr> \<rparr>)"
| "zathura_link_new ZATHURA_LINK_INVALID position target = None"
| "zathura_link_new (ZATHURA_LINK_OTHER v) position target = None"

text \<open>The four link types whose \<^verbatim>\<open>case\<close> labels share the \<^verbatim>\<open>NULL\<close> check.\<close>

definition needs_value :: "zathura_link_type \<Rightarrow> bool" where
  "needs_value ty \<longleftrightarrow>
     ty = ZATHURA_LINK_GOTO_REMOTE \<or> ty = ZATHURA_LINK_URI \<or>
     ty = ZATHURA_LINK_LAUNCH \<or> ty = ZATHURA_LINK_NAMED"

text \<open>The types with a \<^verbatim>\<open>case\<close> label of their own in \<open>zathura_link_new\<close>.\<close>

definition recognized :: "zathura_link_type \<Rightarrow> bool" where
  "recognized ty \<longleftrightarrow>
     ty = ZATHURA_LINK_NONE \<or> ty = ZATHURA_LINK_GOTO_DEST \<or> needs_value ty"

definition a_rectangle :: zathura_rectangle where
  "a_rectangle = \<lparr> x1 = 0, y1 = 0, x2 = 10, y2 = 10 \<rparr>"

section \<open>Shortcut arguments (\<^verbatim>\<open>shortcuts.c\<close>)\<close>

text \<open>
  The values of \<^verbatim>\<open>argument->n\<close> that the shortcuts below compare against; the
  enumeration itself is declared in a header that is not among the sources read here. Any
  other value is \<open>OTHER_ARGUMENT\<close>.
\<close>

datatype argument_n =
    NEXT | PREVIOUS
  | LEFT | RIGHT | UP | DOWN | BOTTOM | TOP
  | FORWARD | BACKWARD
  | FULL_UP | FULL_DOWN | FULL_LEFT | FULL_RIGHT
  | HALF_UP | HALF_DOWN | HALF_LEFT | HALF_RIGHT
  | ZOOM_IN | ZOOM_OUT | ZOOM_SPECIFIC
  | OTHER_ARGUMENT int

text \<open>Conversion of a \<^verbatim>\<open>double\<close> to \<^verbatim>\<open>int\<close> and \<^verbatim>\<open>int\<close> division: both truncate towards zero.\<close>

definition c_trunc :: "real \<Rightarrow> int" where
  "c_trunc r = (if r < 0 then \<lceil>r\<rceil> else \<lfloor>r\<rfloor>)"

definition c_div :: "int \<Rightarrow> int \<Rightarrow> int" where
  "c_div a b = sgn a * sgn b * (\<bar>a\<bar> div \<bar>b\<bar>)"

section \<open>\<open>sc_scroll\<close>\<close>

text \<open>
  The three members of a \<^verbatim>\<open>GtkAdjustment\<close> that \<open>sc_scroll\<close> reads: the current value,
  the page size (the extent of the viewport) and the upper bound.
\<close>

record gtk_adjustment =
  adj_value :: real
  adj_page_size :: real
  adj_upper :: real

text \<open>The settings read with \<^verbatim>\<open>girara_setting_get\<close>, as stored.\<close>

record scroll_settings =
  scroll_step :: real
  scroll_hstep :: real
  scroll_full_overlap :: real
  scroll_page_aware :: bool
  scroll_wrap :: bool
  page_padding :: int

text \<open>
  What the page-aware branch asks of the current page: its offset on the canvas
  (\<^verbatim>\<open>page_calculate_offset\<close>, not among the sources read here), its width and height, and
  the scale of the document.
\<close>

record page_geometry =
  offset_x :: real
  offset_y :: real
  page_width :: real
  page_height :: real
  document_scale :: real

text \<open>The test that selects the horizontal adjustment; the source writes it out twice.\<close>

definition is_horizontal :: "argument_n \<Rightarrow> bool" where
  "is_horizontal n \<longleftrightarrow>
     n = LEFT \<or> n = FULL_LEFT \<or> n = HALF_LEFT \<or>
     n = RIGHT \<or> n = FULL_RIGHT \<or> n = HALF_RIGHT"

text \<open>\<^verbatim>\<open>if (t == 0) t = 1;\<close>\<close>

definition step_count :: "u32 \<Rightarrow> u32" where
  "step_count t = (if t = 0 then 1 else t)"

text \<open>\<^verbatim>\<open>if (scroll_hstep < 0) scroll_hstep = scroll_step;\<close>\<close>

definition effective_hstep :: "scroll_settings \<Rightarrow> real" where
  "effective_hstep s = (if scroll_hstep s < 0 then scroll_step s else scroll_hstep s)"

text \<open>The \<^verbatim>\<open>switch\<close> over \<^verbatim>\<open>argument->n\<close>: the value before wrapping and snapping.\<close>

definition scroll_base ::
  "scroll_settings \<Rightarrow> argument_n \<Rightarrow> u32 \<Rightarrow> gtk_adjustment \<Rightarrow> real"
where
  "scroll_base s n t adj =
     (let view_size = adj_page_size adj;
          val = adj_value adj;
          mx = adj_upper adj - view_size;
          t' = real (unat (step_count t));
          padding = real_of_int (page_padding s)
      in case n of
           FULL_UP \<Rightarrow> val - (1 - scroll_full_overlap s) * view_size - padding
         | FULL_LEFT \<Rightarrow> val - (1 - scroll_full_overlap s) * view_size - padding
         | FULL_DOWN \<Rightarrow> val + (1 - scroll_full_overlap s) * view_size + padding
         | FULL_RIGHT \<Rightarrow> val + (1 - scroll_full_overlap s) * view_size + padding
         | HALF_UP \<Rightarrow> val - ((view_size + padding) / 2)
         | HALF_LEFT \<Rightarrow> val - ((view_size + padding) / 2)
         | HALF_DOWN \<Rightarrow> val + ((view_size + padding) / 2)
         | HALF_RIGHT \<Rightarrow> val + ((view_size + padding) / 2)
         | LEFT \<Rightarrow> val - effective_hstep s * t'
         | UP \<Rightarrow> val - scroll_step s * t'
         | RIGHT \<Rightarrow> val + effective_hstep s * t'
         | DOWN \<Rightarrow> val + scroll_step s * t'
         | TOP \<Rightarrow> 0
         | BOTTOM \<Rightarrow> mx
         | _ \<Rightarrow> val)"

text \<open>\<^verbatim>\<open>if (scroll_wrap == true) { ... }\<close>\<close>

definition scroll_wrapped :: "scroll_settings \<Rightarrow> real \<Rightarrow> real \<Rightarrow> real" where
  "scroll_wrapped s mx new_value =
     (if scroll_wrap s then
        (if new_value < 0 then mx else if new_value > mx then 0 else new_value)
      else new_value)"

text \<open>
  \<^verbatim>\<open>if (scroll_page_aware == true) { ... }\<close>. \<open>page_offset\<close> is an \<^verbatim>\<open>int\<close> in the source
  (the offset is truncated on assignment, and \<^verbatim>\<open>padding / 2\<close> is an integer division),
  \<open>page_size\<close> a \<^verbatim>\<open>double\<close>.
\<close>

definition scroll_snapped ::
  "scroll_settings \<Rightarrow> argument_n \<Rightarrow> gtk_adjustment \<Rightarrow> page_geometry \<Rightarrow> real \<Rightarrow> real"
where
  "scroll_snapped s n adj g new_value =
     (if scroll_page_aware s then
        (let view_size = adj_page_size adj;
             val = adj_value adj;
             page_offset = real_of_int
               (c_trunc (if is_horizontal n then offset_x g else offset_y g)
                  - c_div (page_padding s) 2);
             page_size = (if is_horizontal n then page_width g * document_scale g
                          else page_height g * document_scale g)
                         + real_of_int (page_padding s)
         in if n = FULL_DOWN \<or> n = HALF_DOWN \<or> n = FULL_RIGHT \<or> n = HALF_RIGHT then
              (if page_offset > val \<and> page_offset < val + view_size then page_offset
               else if page_offset \<le> val \<and> page_offset + page_size < val + view_size
                 then page_offset + page_size + 1
               else if page_offset \<le> val \<and> page_offset + page_size < new_value + view_size
                 then page_offset + page_size - view_size + 1
               else new_value)
            else if n = FULL_UP \<or> n = HALF_UP \<or> n = FULL_LEFT \<or> n = HALF_LEFT then
              (if page_offset + 1 \<ge> val \<and> page_offset < val + view_size
                 then page_offset - view_size
               else if page_offset \<le> val \<and> page_offset + page_size + 1 < val + view_size
                 then page_offset + page_size - view_size
               else if page_offset \<le> val \<and> page_offset > new_value then page_offset
               else new_value)
            else new_value)
      else new_value)"

text \<open>
  \<open>sc_scroll\<close> for a loaded document: the value it hands to
  \<^verbatim>\<open>zathura_adjustment_set_value\<close> for the adjustment that the direction selects.
\<close>

definition selected_adjustment ::
  "argument_n \<Rightarrow> gtk_adjustment \<Rightarrow> gtk_adjustment \<Rightarrow> gtk_adjustment"
where
  "selected_adjustment n hadjustment vadjustment =
     (if is_horizontal n then hadjustment else vadjustment)"

definition sc_scroll ::
  "scroll_settings \<Rightarrow> page_geometry \<Rightarrow> gtk_adjustment \<Rightarrow> gtk_adjustment \<Rightarrow>
   argument_n \<Rightarrow> u32 \<Rightarrow> real"
where
  "sc_scroll s g hadjustment vadjustment n t =
     (let adj = selected_adjustment n hadjustment vadjustment;
          mx = adj_upper adj - adj_page_size adj
      in scroll_snapped s n adj g (scroll_wrapped s mx (scroll_base s n t adj)))"

section \<open>\<open>sc_zoom\<close>\<close>

datatype zathura_adjust_mode =
    ZATHURA_ADJUST_NONE
  | ZATHURA_ADJUST_BESTFIT
  | ZATHURA_ADJUST_WIDTH
  | ZATHURA_ADJUST_INPUTBAR
  | ZATHURA_ADJUST_OTHER int

text \<open>The three \<^verbatim>\<open>int\<close> settings, in percent.\<close>

record zoom_settings =
  zoom_step :: int
  zoom_min :: int
  zoom_max :: int

text \<open>
  The scale that "specify new zoom value" stores into the document, from the scale before
  the call. \<^verbatim>\<open>int nt = (t == 0) ? 1 : t;\<close> converts the count to \<^verbatim>\<open>int\<close>.
\<close>

definition zoom_requested :: "zoom_settings \<Rightarrow> argument_n \<Rightarrow> u32 \<Rightarrow> real \<Rightarrow> real" where
  "zoom_requested s n t old_zoom =
     (let nt = (if t = 0 then 1 else sint t);
          step = real_of_int (zoom_step s) / 100 * real_of_int nt
      in if n = ZOOM_IN then old_zoom + step
         else if n = ZOOM_OUT then old_zoom - step
         else if n = ZOOM_SPECIFIC then (if t = 0 then 1 else real (unat t) / 100)
         else 1)"

text \<open>
  \<open>sc_zoom\<close>: the adjust mode and the scale of the document after the call ("zoom
  limitations" applied to the stored scale).
\<close>

definition sc_zoom ::
  "zoom_settings \<Rightarrow> argument_n \<Rightarrow> u32 \<Rightarrow> real \<Rightarrow> zathura_adjust_mode \<times> real"
where
  "sc_zoom s n t old_zoom =
     (let scale = zoom_requested s n t old_zoom;
          zoom_min' = real_of_int (zoom_min s) * (1 / 100);
          zoom_max' = real_of_int (zoom_max s) * (1 / 100)
      in (ZATHURA_ADJUST_NONE,
          if scale < zoom_min' then zoom_min'
          else if scale > zoom_max' then zoom_max'
          else scale))"

section \<open>\<open>sc_navigate\<close>\<close>

record navigate_settings =
  nav_scroll_wrap :: bool
  advance_pages_per_row :: bool
  nav_pages_per_row :: u32

text \<open>
  What \<open>sc_navigate\<close> does after its arithmetic: it returns before \<^verbatim>\<open>page_set\<close>
  (\<open>Rejected\<close>), or it calls \<^verbatim>\<open>page_set\<close> with a page (\<open>Page_set\<close>). With scroll-wrap
  enabled on a document without pages the \<^verbatim>\<open>%\<close> divides by zero (\<open>Division_by_zero\<close>).
\<close>

datatype navigate_outcome = Rejected | Page_set u32 | Division_by_zero

text \<open>
  \<open>new_page\<close>, \<open>number_of_pages\<close> and \<open>offset\<close> are \<^verbatim>\<open>int\<close>, \<open>t\<close> is \<^verbatim>\<open>unsigned int\<close>: the
  sums and the \<^verbatim>\<open>%\<close> are computed in \<^verbatim>\<open>unsigned int\<close> and stored back into the
  \<^verbatim>\<open>int\<close>; the range test compares as \<^verbatim>\<open>int\<close>.
\<close>

definition sc_navigate ::
  "navigate_settings \<Rightarrow> argument_n \<Rightarrow> u32 \<Rightarrow> u32 \<Rightarrow> u32 \<Rightarrow> navigate_outcome"
where
  "sc_navigate s n t number_of_pages current_page =
     (let offset = (if advance_pages_per_row s then nav_pages_per_row s else 1);
          t' = (if t = 0 then offset else t)
      in if nav_scroll_wrap s \<and> (n = NEXT \<or> n = PREVIOUS) \<and> number_of_pages = 0
         then Division_by_zero
         else
           (let new_page =
                  (if n = NEXT then
                     (if \<not> nav_scroll_wrap s then current_page + t'
                      else (current_page + t') mod number_of_pages)
                   else if n = PREVIOUS then
                     (if \<not> nav_scroll_wrap s then current_page - t'
                      else (current_page + number_of_pages - t') mod number_of_pages)
                   else current_page)
            in if (sint new_page < 0 \<or> sint new_page \<ge> sint number_of_pages)
                  \<and> \<not> nav_scroll_wrap s
               then Rejected
               else Page_set new_page))"

section \<open>\<open>sc_adjust_window\<close>\<close>

text \<open>
  What the function reads from the widgets: the allocation of the view, the style
  property \<^verbatim>\<open>scrollbar_spacing\<close>, the input bar, the setting \<^verbatim>\<open>show-scrollbars\<close> and
  the requisition of the vertical scrollbar (\<open>None\<close> when
  \<^verbatim>\<open>gtk_scrolled_window_get_vscrollbar\<close> returns \<^verbatim>\<open>NULL\<close>). The \<^verbatim>\<open>gint\<close> values are kept as
  words: the source stores them into \<^verbatim>\<open>unsigned int\<close> variables.
\<close>

record adjust_view =
  allocation_width :: u32
  allocation_height :: u32
  scrollbar_spacing :: u32
  inputbar_visible :: bool
  inputbar_height :: u32
  show_scrollbars :: bool
  vscrollbar_width :: "u32 option"

text \<open>
  What the function reads from the settings and the document. \<open>cell_height\<close> and
  \<open>cell_width\<close> are what \<^verbatim>\<open>zathura_document_get_cell_size\<close> returns once the scale has been
  set to 1.0. \<^verbatim>\<open>zathura_get_document_size\<close> is not among the sources read here: it is the
  parameter \<open>document_size\<close>, from the scale of the document at the time of the call and
  the two cell sizes to the height and the width of the canvas.
\<close>

text \<open>
  The value of a \<^verbatim>\<open>double\<close> quotient. A divisor of this function is the conversion of an
  \<^verbatim>\<open>unsigned int\<close>, so a zero divisor is +0.0: the quotient is then an infinity with the
  sign of the dividend, or NaN for 0.0 / 0.0.
\<close>

datatype c_double = Finite real | Pos_infinity | Neg_infinity | NaN

definition double_div :: "real \<Rightarrow> real \<Rightarrow> c_double" where
  "double_div a b =
     (if b \<noteq> 0 then Finite (a / b)
      else if 0 < a then Pos_infinity
      else if a < 0 then Neg_infinity
      else NaN)"

text \<open>The \<^verbatim>\<open><\<close> of two doubles: no comparison with NaN holds.\<close>

fun double_less :: "c_double \<Rightarrow> c_double \<Rightarrow> bool" where
  "double_less (Finite a) (Finite b) \<longleftrightarrow> a < b"
| "double_less (Finite a) Pos_infinity \<longleftrightarrow> True"
| "double_less Neg_infinity (Finite b) \<longleftrightarrow> True"
| "double_less Neg_infinity Pos_infinity \<longleftrightarrow> True"
| "double_less a b \<longleftrightarrow> False"

record adjust_layout =
  pages_per_row :: u32
  layout_padding :: u32
  cell_height :: u32
  cell_width :: u32
  document_size :: "c_double \<Rightarrow> u32 \<Rightarrow> u32 \<Rightarrow> u32 \<times> u32"

text \<open>The two members of the document that the function writes.\<close>

record document_view =
  view_adjust_mode :: zathura_adjust_mode
  view_scale :: c_double

text \<open>The view size after \<^verbatim>\<open>width -= spacing\<close> and the input bar correction.\<close>

definition view_width :: "adjust_view \<Rightarrow> u32" where
  "view_width v = allocation_width v - scrollbar_spacing v"

definition view_height :: "adjust_view \<Rightarrow> u32" where
  "view_height v =
     (if inputbar_visible v then allocation_height v + inputbar_height v
      else allocation_height v)"

text \<open>
  The quotient that the source writes out twice, for the width before and after the
  scrollbar has been subtracted; the subtraction and both products are
  \<^verbatim>\<open>unsigned int\<close> arithmetic and wrap around, the division is a division of \<^verbatim>\<open>double\<close>s.
\<close>

definition width_scale :: "adjust_layout \<Rightarrow> u32 \<Rightarrow> c_double" where
  "width_scale l width =
     double_div (real (unat (width - (pages_per_row l - 1) * layout_padding l)))
       (real (unat (pages_per_row l * cell_width l)))"

text \<open>
  The test of the correction pass: scrollbars are shown, the canvas at the new scale is
  taller than the view, the scrollbar exists and its width is positive and below the
  width of the view.
\<close>

definition scrollbar_correction :: "adjust_view \<Rightarrow> adjust_layout \<Rightarrow> u32 option" where
  "scrollbar_correction v l =
     (if show_scrollbars v then
        (let document_height =
               fst (document_size l (width_scale l (view_width v)) (cell_height l) (cell_width l))
         in if view_height v < document_height then
              (case vscrollbar_width v of
                 None \<Rightarrow> None
               | Some requisition_width \<Rightarrow>
                   if 0 <s requisition_width \<and> requisition_width < view_width v
                   then Some requisition_width else None)
            else None)
      else None)"

text \<open>
  \<open>sc_adjust_window\<close> with a page widget and a document present: the document after the
  call, and whether \<^verbatim>\<open>render_all\<close> was reached.
\<close>

definition sc_adjust_window ::
  "adjust_view \<Rightarrow> adjust_layout \<Rightarrow> zathura_adjust_mode \<Rightarrow> document_view \<Rightarrow>
   document_view \<times> bool"
where
  "sc_adjust_window v l n d =
     (let d1 = d \<lparr> view_adjust_mode := n \<rparr>
      in if n = ZATHURA_ADJUST_NONE then (d1, False)
         else
           (let width = view_width v;
                height = view_height v;
                d2 = d1 \<lparr> view_scale := Finite 1 \<rparr>;
                document_width =
                  snd (document_size l (Finite 1) (cell_height l) (cell_width l));
                page_ratio = double_div (real (unat (cell_height l))) (real (unat document_width));
                window_ratio = double_div (real (unat height)) (real (unat width))
            in if n = ZATHURA_ADJUST_WIDTH \<or>
                  (n = ZATHURA_ADJUST_BESTFIT \<and> double_less page_ratio window_ratio) then
                 (case scrollbar_correction v l of
                    None \<Rightarrow> (d2 \<lparr> view_scale := width_scale l width \<rparr>, True)
                  | Some requisition_width \<Rightarrow>
                      (d2 \<lparr> view_scale := width_scale l (width - requisition_width) \<rparr>, True))
               else if n = ZATHURA_ADJUST_BESTFIT then
                 (d2 \<lparr> view_scale :=
                         double_div (real (unat height)) (real (unat (cell_height l))) \<rparr>,
                  True)
               else (d2, False)))"

text \<open>
  The quotient in the words of the specification, over the reals:
  (viewportWidth - (pagesPerRow - 1) * padding) / (pagesPerRow * unscaledCellWidth).
\<close>

definition spec_width_scale :: "real \<Rightarrow> real \<Rightarrow> real \<Rightarrow> real \<Rightarrow> real" where
  "spec_width_scale viewport_width per_row padding unscaled_cell_width =
     (viewport_width - (per_row - 1) * padding) / (per_row * unscaled_cell_width)"

text \<open>
  The inputs on which the quotient of the source is computed without a wrap-around and
  without a zero divisor, for the width \<open>width\<close>: at least one page per row, a cell of
  positive width, paddings that fit into the width, and a row of cells that fits into 32
  bits.
\<close>

definition no_wrap :: "adjust_layout \<Rightarrow> u32 \<Rightarrow> bool" where
  "no_wrap l width \<longleftrightarrow>
     pages_per_row l \<noteq> 0 \<and> cell_width l \<noteq> 0 \<and>
     (unat (pages_per_row l) - 1) * unat (layout_padding l) \<le> unat width \<and>
     unat (pages_per_row l) * unat (cell_width l) < 2 ^ 32"

section \<open>The jumplist and \<open>sc_bisect\<close>\<close>

record zathura_jump =
  jump_page :: u32
  jump_x :: real
  jump_y :: real

record page_widget =
  search_current :: int
  search_length :: int

text \<open>
  The part of \<^verbatim>\<open>zathura_t\<close> and of its document that \<open>sc_bisect\<close> and \<open>sc_search\<close> work
  on: the number of pages, the current page, the position of the view, the jumplist with
  its cursor and capacity, the two search properties of every page widget and the
  direction of the last search.
\<close>

record zathura =
  number_of_pages :: u32
  current_page_number :: u32
  position_x :: real
  position_y :: real
  jumplist :: "zathura_jump list"
  jumplist_cur :: nat
  jumplist_max :: nat
  page_widgets :: "page_widget list"
  search_direction :: argument_n

text \<open>
  Modelled from the spec: \<^verbatim>\<open>page_set\<close> (defined in \<^verbatim>\<open>zathura.c\<close>, which is not among the
  sources read here). The specification lists it as \<open>setCurrentPageIndex(i)\<close>; the position
  of the view after the call is computed by the geometry code and is left as it is here.
\<close>

definition page_set :: "zathura \<Rightarrow> u32 \<Rightarrow> zathura" where
  "page_set z page_id = z \<lparr> current_page_number := page_id \<rparr>"

text \<open>The entry for the current position of the view.\<close>

definition current_position :: "zathura \<Rightarrow> zathura_jump" where
  "current_position z =
     \<lparr> jump_page = current_page_number z, jump_x = position_x z, jump_y = position_y z \<rparr>"

text \<open>
  Modelled from the spec: \<^verbatim>\<open>zathura_jumplist_save\<close> (\<^verbatim>\<open>zathura.c\<close>). "If the list is
  non-empty and the cursor is not at the last index, discard all entries after the cursor.
  Then overwrite the entry at the cursor (or append if empty) with the current viewport
  position. Does not move the cursor."
\<close>

definition zathura_jumplist_save :: "zathura \<Rightarrow> zathura" where
  "zathura_jumplist_save z =
     (if jumplist z = [] then z \<lparr> jumplist := [current_position z] \<rparr>
      else z \<lparr> jumplist :=
                 (take (Suc (jumplist_cur z)) (jumplist z))
                   [jumplist_cur z := current_position z] \<rparr>)"

text \<open>
  Modelled from the spec: \<^verbatim>\<open>zathura_jumplist_add\<close> (\<^verbatim>\<open>zathura.c\<close>). "Append a new entry for
  the current viewport position after cursor, discarding any entries after the cursor, and
  move the cursor to the new tail; if capacity is exceeded, drop the oldest entry instead
  of growing unbounded."
\<close>

definition zathura_jumplist_add :: "zathura \<Rightarrow> zathura" where
  "zathura_jumplist_add z =
     (let appended = take (Suc (jumplist_cur z)) (jumplist z) @ [current_position z];
          kept = (if length appended > jumplist_max z then tl appended else appended)
      in z \<lparr> jumplist := kept, jumplist_cur := length kept - 1 \<rparr>)"

text \<open>
  Modelled from the spec: \<^verbatim>\<open>zathura_jumplist_forward\<close>, \<^verbatim>\<open>zathura_jumplist_backward\<close>,
  \<^verbatim>\<open>zathura_jumplist_has_previous\<close> and \<^verbatim>\<open>zathura_jumplist_current\<close> (\<^verbatim>\<open>zathura.c\<close>). "Move
  the cursor by one, clamped to valid range; no-op at either end. hasPrevious() reports
  whether backward() would move. current() returns the entry at the cursor, or none if the
  list is empty."
\<close>

definition zathura_jumplist_forward :: "zathura \<Rightarrow> zathura" where
  "zathura_jumplist_forward z =
     (if Suc (jumplist_cur z) < length (jumplist z)
      then z \<lparr> jumplist_cur := Suc (jumplist_cur z) \<rparr> else z)"

definition zathura_jumplist_has_previous :: "zathura \<Rightarrow> bool" where
  "zathura_jumplist_has_previous z \<longleftrightarrow> jumplist z \<noteq> [] \<and> 0 < jumplist_cur z"

definition zathura_jumplist_backward :: "zathura \<Rightarrow> zathura" where
  "zathura_jumplist_backward z =
     (if zathura_jumplist_has_previous z
      then z \<lparr> jumplist_cur := jumplist_cur z - 1 \<rparr> else z)"

definition zathura_jumplist_current :: "zathura \<Rightarrow> zathura_jump option" where
  "zathura_jumplist_current z =
     (if jumplist_cur z < length (jumplist z) then Some (jumplist z ! jumplist_cur z)
      else None)"

text \<open>
  "process arguments": \<open>pages\<close> and \<open>cur_page\<close> are the locals \<^verbatim>\<open>number_of_pages\<close> and
  \<^verbatim>\<open>cur_page\<close>, read before \<^verbatim>\<open>zathura_jumplist_save\<close>. The last \<^verbatim>\<open>else\<close> of the source
  (\<^verbatim>\<open>argument == NULL\<close>) is excluded by the guard at the top.
\<close>

definition bisect_process_arguments ::
  "zathura \<Rightarrow> u32 \<Rightarrow> u32 \<Rightarrow> argument_n \<Rightarrow> u32 \<Rightarrow> zathura \<times> argument_n"
where
  "bisect_process_arguments z pages cur_page n t =
     (if t > 0 \<and> t \<le> pages then
        (zathura_jumplist_add (page_set z (t - 1)),
         if t - 1 > cur_page then BACKWARD else FORWARD)
      else (z, n))"

text \<open>
  The look at the previous and the second previous jump: the state afterwards, and
  \<open>have_prev\<close>, \<open>prev_page\<close>, \<open>have_prev2\<close>, \<open>prev2_page\<close>.
\<close>

definition bisect_previous_jumps :: "zathura \<Rightarrow> zathura \<times> bool \<times> u32 \<times> bool \<times> u32" where
  "bisect_previous_jumps z =
     (if zathura_jumplist_has_previous z then
        (let z1 = zathura_jumplist_backward z;
             (have_prev, prev_page) =
               (case zathura_jumplist_current z1 of
                  Some prev_jump \<Rightarrow> (True, jump_page prev_jump)
                | None \<Rightarrow> (False, 0));
             (z2, have_prev2, prev2_page) =
               (if zathura_jumplist_has_previous z1 then
                  (let z1' = zathura_jumplist_backward z1;
                       (have_prev2, prev2_page) =
                         (case zathura_jumplist_current z1' of
                            Some prev2_jump \<Rightarrow> (True, jump_page prev2_jump)
                          | None \<Rightarrow> (False, 0))
                   in (zathura_jumplist_forward z1', have_prev2, prev2_page))
                else (z1, False, 0))
         in (zathura_jumplist_forward z2, have_prev, prev_page, have_prev2, prev2_page))
      else (z, False, 0, False, 0))"

text \<open>The \<^verbatim>\<open>switch (direction)\<close>; the sums and the halving are \<^verbatim>\<open>unsigned int\<close> arithmetic.\<close>

definition bisect_switch ::
  "zathura \<Rightarrow> u32 \<Rightarrow> argument_n \<Rightarrow> u32 \<Rightarrow> bool \<Rightarrow> u32 \<Rightarrow> bool \<Rightarrow> u32 \<Rightarrow> zathura"
where
  "bisect_switch z pages direction cur_page have_prev prev_page have_prev2 prev2_page =
     (if direction = FORWARD then
        (if have_prev \<and> cur_page \<le> prev_page then
           (if cur_page < prev_page
            then zathura_jumplist_add (page_set z ((cur_page + prev_page) div 2))
            else z)
         else if have_prev2 \<and> cur_page \<le> prev2_page then
           (if cur_page < prev2_page then
              zathura_jumplist_save
                (page_set
                   (zathura_jumplist_forward
                      (zathura_jumplist_save (zathura_jumplist_backward z)))
                   ((cur_page + prev2_page) div 2))
            else z)
         else zathura_jumplist_add (page_set z ((cur_page + pages - 1) div 2)))
      else if direction = BACKWARD then
        (if have_prev \<and> prev_page \<le> cur_page then
           (if prev_page < cur_page
            then zathura_jumplist_add (page_set z ((cur_page + prev_page) div 2))
            else z)
         else if have_prev2 \<and> prev2_page \<le> cur_page then
           (if prev2_page < cur_page then
              zathura_jumplist_save
                (page_set
                   (zathura_jumplist_forward
                      (zathura_jumplist_save (zathura_jumplist_backward z)))
                   ((cur_page + prev2_page) div 2))
            else z)
         else zathura_jumplist_add (page_set z (cur_page div 2)))
      else z)"

text \<open>The state after "process arguments", and the direction chosen there.\<close>

definition bisect_after_arguments :: "zathura \<Rightarrow> argument_n \<Rightarrow> u32 \<Rightarrow> zathura \<times> argument_n"
where
  "bisect_after_arguments z n t =
     bisect_process_arguments (zathura_jumplist_save z)
       (number_of_pages z) (current_page_number z) n t"

definition sc_bisect :: "zathura \<Rightarrow> argument_n \<Rightarrow> u32 \<Rightarrow> zathura" where
  "sc_bisect z n t =
     (let (z2, direction) = bisect_after_arguments z n t;
          cur_page = current_page_number z2;
          (z3, have_prev, prev_page, have_prev2, prev2_page) = bisect_previous_jumps z2
      in bisect_switch z3 (number_of_pages z) direction cur_page
           have_prev prev_page have_prev2 prev2_page)"

section \<open>\<open>sc_search\<close>\<close>

text \<open>The \<^verbatim>\<open>%\<close> of C on \<^verbatim>\<open>int\<close>: the remainder of the truncating division.\<close>

definition c_mod :: "int \<Rightarrow> int \<Rightarrow> int" where
  "c_mod a b = a - b * c_div a b"

text \<open>
  \<open>num_pages\<close>, \<open>cur_page\<close>, \<open>diff\<close> and the loop counters are \<^verbatim>\<open>int\<close> in the source; they
  are mathematical integers here (signed overflow, which C leaves undefined, needs a
  document of more than \<open>2 ^ 29\<close> pages).

  \<^verbatim>\<open>zathura_document_get_page\<close> takes an \<^verbatim>\<open>unsigned int\<close> and returns \<^verbatim>\<open>NULL\<close> for an index
  that is not below the number of pages; a negative \<^verbatim>\<open>int\<close> converts to an index beyond
  every page. A page is its index.
\<close>

definition zathura_document_get_page :: "zathura \<Rightarrow> int \<Rightarrow> nat option" where
  "zathura_document_get_page z index =
     (if 0 \<le> index \<and> index < sint (number_of_pages z) \<and>
         nat index < length (page_widgets z)
      then Some (nat index) else None)"

text \<open>
  \<^verbatim>\<open>int diff = argument->n == FORWARD ? 1 : -1;\<close> and the flip for a backward search.
\<close>

definition search_diff :: "argument_n \<Rightarrow> argument_n \<Rightarrow> int" where
  "search_diff n last_direction =
     (let diff = (if n = FORWARD then 1 else - 1)
      in if last_direction = BACKWARD then - diff else diff)"

text \<open>
  The inner loop dereferences the page it fetched without a \<^verbatim>\<open>NULL\<close> test: \<open>Null_page\<close>
  is the outcome of fetching no page there.
\<close>

datatype search_fault = Null_page

type_synonym search_target = "(nat \<times> int) option"

text \<open>
  The inner loop \<^verbatim>\<open>for (int npage_id = 1; page_id < num_pages; ++npage_id)\<close>. Its guard
  does not change, so the loop is left only through \<^verbatim>\<open>break\<close>: the result \<open>None\<close> stands
  for a loop that runs forever.
\<close>

partial_function (option) search_next_page ::
  "int \<Rightarrow> int \<Rightarrow> int \<Rightarrow> int \<Rightarrow> zathura \<Rightarrow> int \<Rightarrow>
   (search_fault + zathura \<times> search_target) option"
where
  "search_next_page num_pages cur_page diff page_id z npage_id =
     (if page_id < num_pages then
        (let ntmp = cur_page + diff * (page_id + npage_id)
         in case zathura_document_get_page z (c_mod (ntmp + 2 * num_pages) num_pages) of
              None \<Rightarrow> Some (Inl Null_page)
            | Some npage \<Rightarrow>
                (let z' = z \<lparr> current_page_number := word_of_nat npage \<rparr>;
                     num_search_results = search_length (page_widgets z' ! npage)
                 in if num_search_results \<noteq> 0 then
                      Some (Inr (z', Some (npage,
                        if diff = 1 then 0 else num_search_results - 1)))
                    else search_next_page num_pages cur_page diff page_id z' (npage_id + 1)))
      else Some (Inr (z, None)))"

text \<open>
  The outer loop \<^verbatim>\<open>for (int page_id = 0; page_id < num_pages; ++page_id)\<close>, from the
  counter \<open>page_id\<close> on: the state and the target (page, index of the result) with which
  the loop is left.
\<close>

function search_scan ::
  "int \<Rightarrow> int \<Rightarrow> int \<Rightarrow> zathura \<Rightarrow> int \<Rightarrow> (search_fault + zathura \<times> search_target) option"
where
  "search_scan num_pages cur_page diff z page_id =
     (if page_id < num_pages then
        (let tmp = cur_page + diff * page_id
         in case zathura_document_get_page z (c_mod (tmp + num_pages) num_pages) of
              None \<Rightarrow> search_scan num_pages cur_page diff z (page_id + 1)
            | Some page \<Rightarrow>
                (let num_search_results = search_length (page_widgets z ! page);
                     current = search_current (page_widgets z ! page)
                 in if num_search_results = 0 \<or> current = - 1 then
                      search_scan num_pages cur_page diff z (page_id + 1)
                    else if diff = 1 \<and> current < num_search_results - 1 then
                      Some (Inr (z, Some (page, current + 1)))
                    else if diff = - 1 \<and> current > 0 then
                      Some (Inr (z, Some (page, current - 1)))
                    else
                      (let z1 = zathura_jumplist_save z;
                           z2 = z1 \<lparr> page_widgets :=
                                  (page_widgets z1)
                                    [page := (page_widgets z1 ! page) \<lparr> search_current := - 1 \<rparr>] \<rparr>
                       in case search_next_page num_pages cur_page diff page_id z2 1 of
                            None \<Rightarrow> None
                          | Some (Inl fault) \<Rightarrow> Some (Inl fault)
                          | Some (Inr (z3, target)) \<Rightarrow>
                              Some (Inr (zathura_jumplist_add z3, target)))))
      else Some (Inr (z, None)))"
  by pat_completeness auto
termination
  by (relation "measure (\<lambda>(num_pages, cur_page, diff, z, page_id). nat (num_pages - page_id))")
    auto

declare search_scan.simps [simp del]

text \<open>
  \<open>sc_search\<close>: \<open>None\<close> if the call does not return, else the fault or the state and the
  target. With a target the widget of its page gets the new \<^verbatim>\<open>search-current\<close>; the
  centring of the view on the rectangle of the result is geometry and is not modelled.
\<close>

definition sc_search ::
  "zathura \<Rightarrow> argument_n \<Rightarrow> (search_fault + zathura \<times> search_target) option"
where
  "sc_search z n =
     (let num_pages = sint (number_of_pages z);
          cur_page = sint (current_page_number z);
          diff = search_diff n (search_direction z)
      in case search_scan num_pages cur_page diff z 0 of
           None \<Rightarrow> None
         | Some (Inl fault) \<Rightarrow> Some (Inl fault)
         | Some (Inr (z', None)) \<Rightarrow> Some (Inr (z', None))
         | Some (Inr (z', Some (target_page, target_idx))) \<Rightarrow>
             Some (Inr (z' \<lparr> page_widgets :=
                              (page_widgets z')
                                [target_page :=
                                   (page_widgets z' ! target_page)
                                     \<lparr> search_current := target_idx \<rparr>] \<rparr>,
                        Some (target_page, target_idx))))"

text \<open>
  A state as \<open>sc_search\<close> meets it: one widget for every page, and a page count and a
  current page that are not negative as \<^verbatim>\<open>int\<close>.
\<close>

definition search_ready :: "zathura \<Rightarrow> bool" where
  "search_ready z \<longleftrightarrow>
     sint (number_of_pages z) = int (length (page_widgets z)) \<and>
     0 \<le> sint (current_page_number z)"

section \<open>Concrete inputs\<close>

text \<open>
  The directions on which the page-aware branch of \<open>sc_scroll\<close> can replace the value:
  the union of its two tests.
\<close>

definition snaps :: "argument_n \<Rightarrow> bool" where
  "snaps n \<longleftrightarrow>
     n = FULL_DOWN \<or> n = HALF_DOWN \<or> n = FULL_RIGHT \<or> n = HALF_RIGHT \<or>
     n = FULL_UP \<or> n = HALF_UP \<or> n = FULL_LEFT \<or> n = HALF_LEFT"

text \<open>
  The adjustment of the end-to-end example of the specification: a viewport of 500 on a
  canvas of 1010, at the top.
\<close>

definition example_adjustment :: gtk_adjustment where
  "example_adjustment = \<lparr> adj_value = 0, adj_page_size = 500, adj_upper = 1010 \<rparr>"

text \<open>The default settings of \<open>sc_scroll\<close>, with the two switches as parameters.\<close>

definition example_settings :: "bool \<Rightarrow> bool \<Rightarrow> scroll_settings" where
  "example_settings wrap aware =
     \<lparr> scroll_step = 40, scroll_hstep = - 1, scroll_full_overlap = 0,
       scroll_page_aware = aware, scroll_wrap = wrap, page_padding = 1 \<rparr>"

text \<open>The first page of a document of pages 100 high, at scale 1.\<close>

definition first_page_geometry :: page_geometry where
  "first_page_geometry =
     \<lparr> offset_x = 0, offset_y = 0, page_width = 100, page_height = 100, document_scale = 1 \<rparr>"

text \<open>A view of 150 by 100 without scrollbars, and one with a scrollbar 10 wide.\<close>

definition adjust_example_view :: "bool \<Rightarrow> adjust_view" where
  "adjust_example_view scrollbars =
     \<lparr> allocation_width = 150, allocation_height = 100, scrollbar_spacing = 0,
       inputbar_visible = False, inputbar_height = 0, show_scrollbars = scrollbars,
       vscrollbar_width = (if scrollbars then Some 10 else None) \<rparr>"

text \<open>
  Two pages in a row, each cell 100 by 100, padding 1: a canvas 201 wide and 100 high at
  every scale (the canvas size is a parameter of the model).
\<close>

definition two_column_layout :: adjust_layout where
  "two_column_layout =
     \<lparr> pages_per_row = 2, layout_padding = 1, cell_height = 100, cell_width = 100,
       document_size = (\<lambda>scale height width. (100, 201)) \<rparr>"

text \<open>One page in a row, three rows: a canvas 100 wide and 302 high.\<close>

definition one_column_layout :: adjust_layout where
  "one_column_layout =
     \<lparr> pages_per_row = 1, layout_padding = 1, cell_height = 100, cell_width = 100,
       document_size = (\<lambda>scale height width. (302, 100)) \<rparr>"

text \<open>Three pages in a row with a padding of 100: a canvas 500 wide.\<close>

definition three_column_layout :: adjust_layout where
  "three_column_layout =
     \<lparr> pages_per_row = 3, layout_padding = 100, cell_height = 100, cell_width = 100,
       document_size = (\<lambda>scale height width. (100, 500)) \<rparr>"

text \<open>A view that has no width yet: 0 by 100.\<close>

definition zero_width_view :: adjust_view where
  "zero_width_view =
     \<lparr> allocation_width = 0, allocation_height = 100, scrollbar_spacing = 0,
       inputbar_visible = False, inputbar_height = 0, show_scrollbars = False,
       vscrollbar_width = None \<rparr>"

text \<open>A document at scale 2 without an adjust mode.\<close>

definition a_document_view :: document_view where
  "a_document_view = \<lparr> view_adjust_mode = ZATHURA_ADJUST_NONE, view_scale = Finite 2 \<rparr>"

definition jump_at :: "u32 \<Rightarrow> zathura_jump" where
  "jump_at p = \<lparr> jump_page = p, jump_x = 0, jump_y = 0 \<rparr>"

text \<open>A document of ten pages with an empty jumplist, on the given page.\<close>

definition bisect_example :: "u32 \<Rightarrow> zathura" where
  "bisect_example cur_page =
     \<lparr> number_of_pages = 10, current_page_number = cur_page, position_x = 0, position_y = 0,
       jumplist = [], jumplist_cur = 0, jumplist_max = 20,
       page_widgets = [], search_direction = FORWARD \<rparr>"

text \<open>
  A document of three pages with 0, 2 and 0 search results, after a forward search: the
  current page, the active result of page 1, and the jumplist with its cursor.
\<close>

definition search_example :: "u32 \<Rightarrow> int \<Rightarrow> zathura_jump list \<Rightarrow> nat \<Rightarrow> zathura" where
  "search_example cur_page active jumps cursor =
     \<lparr> number_of_pages = 3, current_page_number = cur_page, position_x = 0, position_y = 0,
       jumplist = jumps, jumplist_cur = cursor, jumplist_max = 20,
       page_widgets = [\<lparr> search_current = - 1, search_length = 0 \<rparr>,
                       \<lparr> search_current = active, search_length = 2 \<rparr>,
                       \<lparr> search_current = - 1, search_length = 0 \<rparr>],
       search_direction = FORWARD \<rparr>"

text \<open>The target that a call of \<open>sc_search\<close> lands on, if it returns one.\<close>

definition landing :: "(search_fault + zathura \<times> search_target) option \<Rightarrow> search_target" where
  "landing r = (case r of Some (Inr (z, target)) \<Rightarrow> target | _ \<Rightarrow> None)"

text \<open>Scroll-wrap enabled, one page per step.\<close>

definition wrap_settings :: navigate_settings where
  "wrap_settings =
     \<lparr> nav_scroll_wrap = True, advance_pages_per_row = False, nav_pages_per_row = 1 \<rparr>"

definition no_wrap_settings :: navigate_settings where
  "no_wrap_settings =
     \<lparr> nav_scroll_wrap = False, advance_pages_per_row = False, nav_pages_per_row = 1 \<rparr>"

section \<open>Link construction\<close>

text \<open>
  C6, as the claim states it, fails: it asks construction to fail whenever the target of
  a GotoRemote, Uri, Launch or Named link carries no non-empty string. The source tests
  the pointer against \<^verbatim>\<open>NULL\<close> only, so the empty string is accepted: a Uri link built
  from the empty string is an object.
\<close>

theorem link_new_empty_string_counterexample:
  "zathura_link_new ZATHURA_LINK_URI a_rectangle (zeroed_target \<lparr> target_value := Some [] \<rparr>)
     \<noteq> None"
  by simp

text \<open>
  C6, amended: construction yields no object for every type that is not one of the six
  recognized ones, and for GotoRemote, Uri, Launch and Named exactly when the target value
  is absent (\<^verbatim>\<open>NULL\<close>); a present value, the empty string included, is stored as it is.
  For None and GotoDestination construction succeeds whatever the target value is, and
  keeps the whole target.
\<close>

theorem link_new_contract:
  "(\<not> recognized ty \<longrightarrow> zathura_link_new ty pos tg = None) \<and>
   (needs_value ty \<longrightarrow>
      (zathura_link_new ty pos tg = None \<longleftrightarrow> target_value tg = None) \<and>
      (\<forall>v. target_value tg = Some v \<longrightarrow>
         (\<exists>l. zathura_link_new ty pos tg = Some l \<and> link_type l = ty \<and>
              link_position l = pos \<and> target_value (link_target l) = Some v))) \<and>
   (ty = ZATHURA_LINK_NONE \<or> ty = ZATHURA_LINK_GOTO_DEST \<longrightarrow>
      (\<exists>l. zathura_link_new ty pos tg = Some l \<and> link_type l = ty \<and>
           link_position l = pos \<and> link_target l = tg))"
  by (cases ty) (auto simp: recognized_def needs_value_def split: option.splits)

theorem link_new_contract_witness:
  "\<not> recognized ZATHURA_LINK_INVALID \<and>
   zathura_link_new ZATHURA_LINK_INVALID a_rectangle zeroed_target = None \<and>
   needs_value ZATHURA_LINK_URI \<and>
   zathura_link_new ZATHURA_LINK_URI a_rectangle zeroed_target = None \<and>
   (\<exists>l. zathura_link_new ZATHURA_LINK_GOTO_DEST a_rectangle zeroed_target = Some l \<and>
        link_target l = zeroed_target)"
  using link_new_contract [of ZATHURA_LINK_INVALID a_rectangle zeroed_target]
    link_new_contract [of ZATHURA_LINK_URI a_rectangle zeroed_target]
    link_new_contract [of ZATHURA_LINK_GOTO_DEST a_rectangle zeroed_target]
  by (simp add: recognized_def needs_value_def zeroed_target_def)

section \<open>Scrolling\<close>

lemmas scroll_example_defs =
  example_settings_def example_adjustment_def first_page_geometry_def

text \<open>
  C1: the value before wrapping and snapping follows the formulas of the specification.
  A step direction moves by the step size times the step count (a count of 0 counts as
  1), the horizontal step size being the vertical one when the horizontal setting is
  negative; a full direction moves by (1 - overlap) * viewport + padding; a half direction
  by (viewport + padding) / 2; Top gives 0 and Bottom gives upper - viewport. Up and left
  subtract, down and right add. On a viewport of 500 over a canvas of 1010, with overlap 0
  and padding 1, FullDown from 0 gives 501; that is also the value of the whole of
  \<open>sc_scroll\<close> when page-aware scrolling is off, with or without wrap.
\<close>

theorem scroll_base_formulas:
  "scroll_base s UP t adj = adj_value adj - scroll_step s * real (unat (step_count t)) \<and>
   scroll_base s DOWN t adj = adj_value adj + scroll_step s * real (unat (step_count t)) \<and>
   scroll_base s LEFT t adj = adj_value adj - effective_hstep s * real (unat (step_count t)) \<and>
   scroll_base s RIGHT t adj = adj_value adj + effective_hstep s * real (unat (step_count t)) \<and>
   (n = FULL_UP \<or> n = FULL_LEFT \<longrightarrow>
      scroll_base s n t adj =
        adj_value adj
          - ((1 - scroll_full_overlap s) * adj_page_size adj + real_of_int (page_padding s))) \<and>
   (n = FULL_DOWN \<or> n = FULL_RIGHT \<longrightarrow>
      scroll_base s n t adj =
        adj_value adj
          + ((1 - scroll_full_overlap s) * adj_page_size adj + real_of_int (page_padding s))) \<and>
   (n = HALF_UP \<or> n = HALF_LEFT \<longrightarrow>
      scroll_base s n t adj =
        adj_value adj - (adj_page_size adj + real_of_int (page_padding s)) / 2) \<and>
   (n = HALF_DOWN \<or> n = HALF_RIGHT \<longrightarrow>
      scroll_base s n t adj =
        adj_value adj + (adj_page_size adj + real_of_int (page_padding s)) / 2) \<and>
   scroll_base s TOP t adj = 0 \<and>
   scroll_base s BOTTOM t adj = adj_upper adj - adj_page_size adj \<and>
   (scroll_hstep s < 0 \<longrightarrow> effective_hstep s = scroll_step s) \<and>
   (0 \<le> scroll_hstep s \<longrightarrow> effective_hstep s = scroll_hstep s) \<and>
   step_count 0 = 1 \<and> (t \<noteq> 0 \<longrightarrow> step_count t = t) \<and>
   scroll_base (example_settings wrap aware) FULL_DOWN t example_adjustment = 501 \<and>
   sc_scroll (example_settings wrap False) g hadjustment example_adjustment FULL_DOWN t = 501"
  by (auto simp: scroll_base_def effective_hstep_def step_count_def Let_def
      scroll_example_defs sc_scroll_def selected_adjustment_def is_horizontal_def
      scroll_wrapped_def scroll_snapped_def)

theorem scroll_base_formulas_witness:
  "scroll_base (example_settings False False) FULL_UP 3 example_adjustment = - 501 \<and>
   scroll_base (example_settings False False) HALF_DOWN 3 example_adjustment = 501 / 2 \<and>
   scroll_base (example_settings False False) LEFT 3 example_adjustment = - 120 \<and>
   scroll_hstep (example_settings False False) < 0 \<and>
   effective_hstep (example_settings False False) = 40 \<and>
   step_count 3 = 3"
  using scroll_base_formulas [where s = "example_settings False False" and n = FULL_UP
      and t = 3 and adj = example_adjustment]
    scroll_base_formulas [where s = "example_settings False False" and n = HALF_DOWN
      and t = 3 and adj = example_adjustment]
  by (simp add: scroll_example_defs)

text \<open>
  C2, as the claim states it, fails: with page-aware snapping enabled the snapped value
  replaces the wrapped one and is not tested against the bounds again. On the example
  adjustment (maximum 510), with wrap and snapping enabled and the first page at offset 0,
  FullUp from 0 wraps to 510 and is then snapped to page offset - viewport = - 500, which
  is the value handed to \<^verbatim>\<open>zathura_adjustment_set_value\<close>.
\<close>

theorem scroll_snap_leaves_range_counterexample:
  "scroll_wrap (example_settings True True) \<and>
   0 \<le> adj_upper example_adjustment - adj_page_size example_adjustment \<and>
   sc_scroll (example_settings True True) first_page_geometry
     example_adjustment example_adjustment FULL_UP 1 = - 500 \<and>
   \<not> (0 \<le> sc_scroll (example_settings True True) first_page_geometry
             example_adjustment example_adjustment FULL_UP 1)"
  by (simp add: sc_scroll_def selected_adjustment_def is_horizontal_def scroll_wrapped_def
      scroll_snapped_def scroll_base_def scroll_example_defs c_trunc_def c_div_def
      step_count_def Let_def)

text \<open>
  C2, amended: for every direction, step count and adjustment with
  max = upper - viewport \<ge> 0, when scroll-wrap is enabled a computed value below 0 becomes
  max, a value above max becomes 0 and a value within the bounds is kept; the value that
  \<open>sc_scroll\<close> hands on lies within [0, max] whenever page-aware snapping is disabled or
  the direction is not a full or half move.
\<close>

theorem scroll_wrap_in_range:
  assumes "scroll_wrap s"
    and "adj = selected_adjustment n hadjustment vadjustment"
    and "mx = adj_upper adj - adj_page_size adj"
    and "0 \<le> mx"
  shows "(scroll_base s n t adj < 0 \<longrightarrow> scroll_wrapped s mx (scroll_base s n t adj) = mx) \<and>
         (scroll_base s n t adj > mx \<longrightarrow> scroll_wrapped s mx (scroll_base s n t adj) = 0) \<and>
         (0 \<le> scroll_base s n t adj \<and> scroll_base s n t adj \<le> mx \<longrightarrow>
            scroll_wrapped s mx (scroll_base s n t adj) = scroll_base s n t adj) \<and>
         (\<not> scroll_page_aware s \<or> \<not> snaps n \<longrightarrow>
            0 \<le> sc_scroll s g hadjustment vadjustment n t \<and>
            sc_scroll s g hadjustment vadjustment n t \<le> mx)"
  using assms
  by (auto simp: scroll_wrapped_def sc_scroll_def scroll_snapped_def snaps_def Let_def)

theorem scroll_wrap_in_range_witness:
  "scroll_wrap (example_settings True False) \<and>
   scroll_base (example_settings True False) FULL_UP 1 example_adjustment < 0 \<and>
   scroll_wrapped (example_settings True False) 510
     (scroll_base (example_settings True False) FULL_UP 1 example_adjustment) = 510 \<and>
   0 \<le> sc_scroll (example_settings True False) first_page_geometry
          example_adjustment example_adjustment FULL_UP 1 \<and>
   sc_scroll (example_settings True False) first_page_geometry
     example_adjustment example_adjustment FULL_UP 1 \<le> 510"
proof -
  have wrap: "scroll_wrap (example_settings True False)"
    by (simp add: example_settings_def)
  have adj: "example_adjustment =
      selected_adjustment FULL_UP example_adjustment example_adjustment"
    by (simp add: selected_adjustment_def)
  have mx: "(510::real) = adj_upper example_adjustment - adj_page_size example_adjustment"
    by (simp add: example_adjustment_def)
  have neg: "scroll_base (example_settings True False) FULL_UP 1 example_adjustment < 0"
    by (simp add: scroll_base_def scroll_example_defs)
  have off: "\<not> scroll_page_aware (example_settings True False)"
    by (simp add: example_settings_def)
  show ?thesis
    using scroll_wrap_in_range [OF wrap adj mx, of 1 first_page_geometry] wrap neg off
    by simp
qed

section \<open>Zooming\<close>

text \<open>
  C9, as the claim states it, fails: the settings are not checked against each other. With
  zoom-min = 1000 and zoom-max = 10 the reset to 1.0 is below the minimum and is raised to
  10.0, which is above zoom-max / 100; the \<^verbatim>\<open>else if\<close> never tests the maximum then.
\<close>

theorem zoom_limits_counterexample:
  "snd (sc_zoom \<lparr> zoom_step = 10, zoom_min = 1000, zoom_max = 10 \<rparr> ZOOM_SPECIFIC 0 1) = 10 \<and>
   \<not> (snd (sc_zoom \<lparr> zoom_step = 10, zoom_min = 1000, zoom_max = 10 \<rparr> ZOOM_SPECIFIC 0 1)
        \<le> real_of_int 10 / 100)"
  by (simp add: sc_zoom_def zoom_requested_def)

text \<open>
  C9, amended: whenever zoom-min \<le> zoom-max, after every zoom operation (zoom in, zoom
  out, zoom to a specific value, or the reset to 1.0) the scale of the document lies within
  [zoom-min / 100, zoom-max / 100]: a requested scale below the minimum becomes the
  minimum, one above the maximum becomes the maximum, and one within the limits is kept.
  The adjust mode is none afterwards.
\<close>

theorem zoom_limits:
  assumes "zoom_min s \<le> zoom_max s"
  shows "real_of_int (zoom_min s) / 100 \<le> snd (sc_zoom s n t old_zoom) \<and>
         snd (sc_zoom s n t old_zoom) \<le> real_of_int (zoom_max s) / 100 \<and>
         (zoom_requested s n t old_zoom < real_of_int (zoom_min s) / 100 \<longrightarrow>
            snd (sc_zoom s n t old_zoom) = real_of_int (zoom_min s) / 100) \<and>
         (zoom_requested s n t old_zoom > real_of_int (zoom_max s) / 100 \<longrightarrow>
            snd (sc_zoom s n t old_zoom) = real_of_int (zoom_max s) / 100) \<and>
         (real_of_int (zoom_min s) / 100 \<le> zoom_requested s n t old_zoom \<and>
          zoom_requested s n t old_zoom \<le> real_of_int (zoom_max s) / 100 \<longrightarrow>
            snd (sc_zoom s n t old_zoom) = zoom_requested s n t old_zoom) \<and>
         fst (sc_zoom s n t old_zoom) = ZATHURA_ADJUST_NONE"
proof -
  have "real_of_int (zoom_min s) / 100 \<le> real_of_int (zoom_max s) / 100"
    using assms by simp
  then show ?thesis
    by (auto simp: sc_zoom_def Let_def)
qed

theorem zoom_limits_witness:
  "zoom_min \<lparr> zoom_step = 10, zoom_min = 10, zoom_max = 1000 \<rparr>
     \<le> zoom_max \<lparr> zoom_step = 10, zoom_min = 10, zoom_max = 1000 \<rparr> \<and>
   zoom_requested \<lparr> zoom_step = 10, zoom_min = 10, zoom_max = 1000 \<rparr> ZOOM_OUT 3 (1 / 5)
     < real_of_int 10 / 100 \<and>
   snd (sc_zoom \<lparr> zoom_step = 10, zoom_min = 10, zoom_max = 1000 \<rparr> ZOOM_OUT 3 (1 / 5))
     = 1 / 10 \<and>
   zoom_requested \<lparr> zoom_step = 10, zoom_min = 10, zoom_max = 1000 \<rparr> ZOOM_SPECIFIC 2000 1
     > real_of_int 1000 / 100 \<and>
   snd (sc_zoom \<lparr> zoom_step = 10, zoom_min = 10, zoom_max = 1000 \<rparr> ZOOM_SPECIFIC 2000 1)
     = 10"
proof -
  let ?s = "\<lparr> zoom_step = 10, zoom_min = 10, zoom_max = 1000 \<rparr>"
  have le: "zoom_min ?s \<le> zoom_max ?s" by simp
  have low: "zoom_requested ?s ZOOM_OUT 3 (1 / 5) < real_of_int 10 / 100"
    by (simp add: zoom_requested_def)
  have high: "zoom_requested ?s ZOOM_SPECIFIC 2000 1 > real_of_int 1000 / 100"
    by (simp add: zoom_requested_def)
  show ?thesis
    using zoom_limits [OF le, of ZOOM_OUT 3 "1 / 5"]
      zoom_limits [OF le, of ZOOM_SPECIFIC 2000 1] low high
    by simp
qed

section \<open>Arithmetic of 32-bit words\<close>

lemma two_power_31: "(2::int) ^ 31 = 2147483648"
  by simp

lemma signed_take_bit_31_self:
  fixes k :: int
  assumes "- 2147483648 \<le> k" and "k < 2147483648"
  shows "signed_take_bit (31::nat) k = k"
  using assms by (intro signed_take_bit_int_eq_self) (simp_all only: two_power_31)

lemma signed_take_bit_31_high:
  fixes k :: int
  assumes "2147483648 \<le> k"
  shows "signed_take_bit (31::nat) k \<le> k - 4294967296"
  using signed_take_bit_int_less_eq [of 31 k] assms by simp

lemma sint_u32: "sint (w :: u32) = signed_take_bit (31::nat) (uint w)"
  by (simp add: sint_uint)

lemma sint_u32_less: "sint (w :: u32) < 2147483648"
  using sint_lt [of w] by simp

lemma sint_u32_add: "sint (a + b :: u32) = signed_take_bit (31::nat) (sint a + sint b)"
  by (simp add: sint_word_add)

lemma sint_u32_diff: "sint (a - b :: u32) = signed_take_bit (31::nat) (sint a - sint b)"
  by (simp add: sint_word_diff)

lemma sint_eq_uint_u32:
  fixes t :: u32
  assumes "uint t < 2147483648"
  shows "sint t = uint t"
proof -
  have "- 2147483648 \<le> uint t" using uint_ge_0 [of t] by linarith
  then show ?thesis unfolding sint_u32 using assms by (rule signed_take_bit_31_self)
qed

lemma sint_add_in_range:
  fixes c t :: u32
  assumes "0 \<le> sint c" and "uint t < 2147483648" and "sint c + uint t < 2147483648"
  shows "sint (c + t) = sint c + uint t"
proof -
  have "- 2147483648 \<le> sint c + uint t" using assms(1) uint_ge_0 [of t] by linarith
  then have "signed_take_bit (31::nat) (sint c + uint t) = sint c + uint t"
    using assms(3) by (rule signed_take_bit_31_self)
  then show ?thesis unfolding sint_u32_add sint_eq_uint_u32 [OF assms(2)] .
qed

lemma sint_add_wraps_negative:
  fixes c t :: u32
  assumes "0 \<le> sint c" and "uint t < 2147483648" and "2147483648 \<le> sint c + uint t"
  shows "sint (c + t) < 0"
proof -
  have "signed_take_bit (31::nat) (sint c + uint t) \<le> sint c + uint t - 4294967296"
    using assms(3) by (rule signed_take_bit_31_high)
  then have "sint (c + t) \<le> sint c + uint t - 4294967296"
    unfolding sint_u32_add sint_eq_uint_u32 [OF assms(2)] .
  then show ?thesis using assms(2) sint_u32_less [of c] by linarith
qed

lemma sint_diff_in_range:
  fixes c t :: u32
  assumes "0 \<le> sint c" and "uint t < 2147483648"
  shows "sint (c - t) = sint c - uint t"
proof -
  have low: "- 2147483648 \<le> sint c - uint t" using assms by linarith
  have high: "sint c - uint t < 2147483648"
    using sint_u32_less [of c] uint_ge_0 [of t] by linarith
  have "signed_take_bit (31::nat) (sint c - uint t) = sint c - uint t"
    using low high by (rule signed_take_bit_31_self)
  then show ?thesis unfolding sint_u32_diff sint_eq_uint_u32 [OF assms(2)] .
qed

lemma unat_forward_midpoint:
  fixes c n :: u32
  assumes "0 < n" and "unat c + unat n \<le> 2 ^ 32"
  shows "unat ((c + n - 1) div 2) = (unat c + unat n - 1) div 2"
proof -
  have n0: "n \<noteq> 0" using assms(1) by auto
  have pred: "unat (n - 1) = unat n - 1" using n0 by (simp add: unat_minus_one)
  have pos: "0 < unat n" using n0 by (simp add: unat_gt_0)
  have "unat c + unat (n - 1) < 2 ^ LENGTH(32)" using pred pos assms(2) by simp
  then have sum: "unat (c + (n - 1)) = unat c + unat (n - 1)"
    by (simp add: unat_add_lem [THEN iffD1])
  have regroup: "c + n - 1 = c + (n - 1)" by simp
  show ?thesis using pos by (simp add: unat_div regroup sum pred)
qed

section \<open>Page navigation\<close>

text \<open>
  Without scroll-wrap, for a count below \<open>2 ^ 31\<close>: the request is rejected exactly when
  the requested page lies outside the document, and \<^verbatim>\<open>page_set\<close> gets the requested page
  otherwise.
\<close>

lemma navigate_without_wrap:
  assumes nowrap: "\<not> nav_scroll_wrap s"
    and t: "t \<noteq> 0" "uint t < 2147483648"
    and cur: "0 \<le> sint cur_page"
  shows "sc_navigate s NEXT t pages cur_page =
           (if sint cur_page + uint t < sint pages
            then Page_set (cur_page + t) else Rejected)"
    and "sc_navigate s PREVIOUS t pages cur_page =
           (if 0 \<le> sint cur_page - uint t \<and> sint cur_page - uint t < sint pages
            then Page_set (cur_page - t) else Rejected)"
proof -
  have np: "sint pages < 2147483648" by (rule sint_u32_less)
  have next_eq: "sc_navigate s NEXT t pages cur_page =
     (if sint (cur_page + t) < 0 \<or> sint pages \<le> sint (cur_page + t) then Rejected
      else Page_set (cur_page + t))"
    using nowrap t(1) by (simp add: sc_navigate_def)
  have prev_eq: "sc_navigate s PREVIOUS t pages cur_page =
     (if sint (cur_page - t) < 0 \<or> sint pages \<le> sint (cur_page - t) then Rejected
      else Page_set (cur_page - t))"
    using nowrap t(1) by (simp add: sc_navigate_def)
  show "sc_navigate s NEXT t pages cur_page =
           (if sint cur_page + uint t < sint pages
            then Page_set (cur_page + t) else Rejected)"
  proof (cases "sint cur_page + uint t < 2147483648")
    case True
    have "0 \<le> sint cur_page + uint t" using cur uint_ge_0 [of t] by linarith
    then show ?thesis
      unfolding next_eq sint_add_in_range [OF cur t(2) True] by auto
  next
    case False
    then have big: "2147483648 \<le> sint cur_page + uint t" by simp
    have "\<not> sint cur_page + uint t < sint pages" using big np by linarith
    then show ?thesis
      unfolding next_eq using sint_add_wraps_negative [OF cur t(2) big] by simp
  qed
  show "sc_navigate s PREVIOUS t pages cur_page =
           (if 0 \<le> sint cur_page - uint t \<and> sint cur_page - uint t < sint pages
            then Page_set (cur_page - t) else Rejected)"
    unfolding prev_eq sint_diff_in_range [OF cur t(2)] by auto
qed

text \<open>
  With scroll-wrap: the next page is the sum modulo the number of pages; the previous page
  is the difference modulo the number of pages as long as the count does not exceed the
  current page plus the number of pages.
\<close>

lemma navigate_with_wrap:
  assumes wrap: "nav_scroll_wrap s"
    and t: "t \<noteq> 0"
    and pages: "pages \<noteq> 0"
  shows "unat cur_page + unat t < 2 ^ 32 \<Longrightarrow>
           \<exists>p. sc_navigate s NEXT t pages cur_page = Page_set p \<and>
               unat p = (unat cur_page + unat t) mod unat pages"
    and "unat cur_page + unat pages < 2 ^ 32 \<Longrightarrow> unat t \<le> unat cur_page + unat pages \<Longrightarrow>
           \<exists>p. sc_navigate s PREVIOUS t pages cur_page = Page_set p \<and>
               int (unat p) = (int (unat cur_page) - int (unat t)) mod int (unat pages)"
proof -
  assume "unat cur_page + unat t < 2 ^ 32"
  then have "unat (cur_page + t) = unat cur_page + unat t"
    by (simp add: unat_add_lem [THEN iffD1])
  then have "unat ((cur_page + t) mod pages) = (unat cur_page + unat t) mod unat pages"
    by (simp add: unat_mod)
  then show "\<exists>p. sc_navigate s NEXT t pages cur_page = Page_set p \<and>
               unat p = (unat cur_page + unat t) mod unat pages"
    using wrap t pages by (simp add: sc_navigate_def)
next
  assume sum: "unat cur_page + unat pages < 2 ^ 32"
    and le: "unat t \<le> unat cur_page + unat pages"
  have a: "unat (cur_page + pages) = unat cur_page + unat pages"
    using sum by (simp add: unat_add_lem [THEN iffD1])
  have "t \<le> cur_page + pages" using le by (simp add: word_le_nat_alt a)
  then have b: "unat (cur_page + pages - t) = unat cur_page + unat pages - unat t"
    by (simp add: unat_sub a)
  have c: "unat ((cur_page + pages - t) mod pages)
             = (unat cur_page + unat pages - unat t) mod unat pages"
    by (simp only: unat_mod b)
  have "int ((unat cur_page + unat pages - unat t) mod unat pages)
          = (int (unat cur_page) + int (unat pages) - int (unat t)) mod int (unat pages)"
    using le by (simp only: zmod_int of_nat_diff of_nat_add)
  also have "\<dots> = (int (unat cur_page) - int (unat t)) mod int (unat pages)"
    by (metis diff_add_eq mod_add_self2)
  finally have d: "int (unat ((cur_page + pages - t) mod pages))
          = (int (unat cur_page) - int (unat t)) mod int (unat pages)"
    by (simp only: c)
  have "sc_navigate s PREVIOUS t pages cur_page = Page_set ((cur_page + pages - t) mod pages)"
    using wrap t pages by (simp add: sc_navigate_def)
  then show "\<exists>p. sc_navigate s PREVIOUS t pages cur_page = Page_set p \<and>
               int (unat p) = (int (unat cur_page) - int (unat t)) mod int (unat pages)"
    using d by blast
qed

text \<open>
  C8: the claim holds on the source except where a count wraps around in \<^verbatim>\<open>unsigned int\<close>.
  With scroll-wrap enabled the previous page is computed as
  \<^verbatim>\<open>(new_page + number_of_pages - t) % number_of_pages\<close> in \<^verbatim>\<open>unsigned int\<close>; a count above
  current page + number of pages makes the difference wrap around \<open>2 ^ 32\<close> before the
  remainder is taken. On a document of 3 pages, going 5 pages back from page 0 calls
  \<^verbatim>\<open>page_set\<close> with page 2, while 0 - 5 modulo 3 is 1; going 5 pages forward from page 0
  gives page 2, which is 0 + 5 modulo 3. Without scroll-wrap the same request is rejected.
\<close>

theorem navigate_previous_wrap_failing_input:
  "sc_navigate wrap_settings PREVIOUS 5 3 0 = Page_set 2 \<and>
   ((0 - 5) mod 3 :: int) = 1 \<and>
   sc_navigate wrap_settings NEXT 5 3 0 = Page_set 2 \<and>
   ((0 + 5) mod 3 :: int) = 2 \<and>
   sc_navigate no_wrap_settings PREVIOUS 5 3 0 = Rejected \<and>
   sc_navigate no_wrap_settings NEXT 5 3 0 = Rejected"
  by (simp add: sc_navigate_def wrap_settings_def no_wrap_settings_def)

section \<open>Fitting the window\<close>

lemmas adjust_example_defs =
  adjust_example_view_def zero_width_view_def two_column_layout_def one_column_layout_def
  three_column_layout_def a_document_view_def

lemma double_div_finite: "b \<noteq> 0 \<Longrightarrow> double_div a b = Finite (a / b)"
  by (simp add: double_div_def)

lemma real_unat_nonzero: "x \<noteq> 0 \<Longrightarrow> real (unat (x :: u32)) \<noteq> 0"
  unfolding of_nat_eq_0_iff unat_eq_zero .

text \<open>
  On the inputs of \<open>no_wrap\<close> the quotient of the source is finite and is the quotient of
  the specification.
\<close>

lemma width_scale_spec:
  assumes "no_wrap l width"
  shows "width_scale l width =
           Finite (spec_width_scale (real (unat width)) (real (unat (pages_per_row l)))
             (real (unat (layout_padding l))) (real (unat (cell_width l))))"
proof -
  let ?p = "pages_per_row l" and ?q = "layout_padding l"
  have p: "?p \<noteq> 0" and cw: "cell_width l \<noteq> 0"
    and fits: "(unat ?p - 1) * unat ?q \<le> unat width"
    and prod: "unat ?p * unat (cell_width l) < 2 ^ 32"
    using assms by (simp_all add: no_wrap_def)
  have a: "unat (?p - 1) = unat ?p - 1" using p by (simp add: unat_minus_one)
  have pos: "1 \<le> unat ?p" using p by (simp add: unat_gt_0 Suc_leI)
  have b: "unat (?p - 1) * unat ?q < 2 ^ LENGTH(32)"
    using fits a unsigned_less [of width, where ?'a = nat] by simp
  have c: "unat ((?p - 1) * ?q) = unat (?p - 1) * unat ?q"
    using b by (simp add: unat_mult_lem [THEN iffD1])
  have d: "(?p - 1) * ?q \<le> width" using fits by (simp add: word_le_nat_alt c a)
  have e: "unat (width - (?p - 1) * ?q) = unat width - (unat ?p - 1) * unat ?q"
    using d by (simp add: unat_sub c a)
  have f: "unat (?p * cell_width l) = unat ?p * unat (cell_width l)"
    using prod by (simp add: unat_mult_lem [THEN iffD1])
  have g: "real (unat width - (unat ?p - 1) * unat ?q)
             = real (unat width) - (real (unat ?p) - 1) * real (unat ?q)"
    using fits pos by simp
  have "unat ?p * unat (cell_width l) \<noteq> 0"
    using p cw by (simp add: unat_eq_zero)
  then have nz: "real (unat (?p * cell_width l)) \<noteq> 0"
    unfolding f of_nat_eq_0_iff .
  have "width_scale l width =
      Finite (real (unat (width - (?p - 1) * ?q)) / real (unat (?p * cell_width l)))"
    unfolding width_scale_def by (rule double_div_finite [OF nz])
  then show ?thesis
    unfolding spec_width_scale_def e f g of_nat_mult .
qed

lemma scrollbar_correction_iff:
  "scrollbar_correction v l = Some w \<longleftrightarrow>
     show_scrollbars v \<and>
     view_height v
       < fst (document_size l (width_scale l (view_width v)) (cell_height l) (cell_width l)) \<and>
     vscrollbar_width v = Some w \<and> 0 <s w \<and> w < view_width v"
  by (auto simp: scrollbar_correction_def Let_def split: option.splits)

text \<open>The corrected width is the width less the scrollbar, without a wrap-around.\<close>

lemma scrollbar_correction_width:
  assumes "scrollbar_correction v l = Some w"
  shows "unat (view_width v - w) = unat (view_width v) - unat w"
proof -
  have "w < view_width v"
    using assms by (simp add: scrollbar_correction_iff)
  then have "w \<le> view_width v" by (rule order.strict_implies_order)
  then show ?thesis by (simp add: unat_sub)
qed

text \<open>
  C5, as the claim states it, fails twice. In BESTFIT mode the source compares the cell
  height with the width of the whole canvas (\<^verbatim>\<open>document_width\<close>), not with the width of
  one cell: with two cells of 100 by 100 in a row (canvas 201 wide) in a view of 150 by
  100, cell height / cell width = 1 is not below 100 / 150, so the claim asks for the scale
  view height / cell height = 1, while the source finds 100 / 201 below 100 / 150 and fits
  the width, scale (150 - 1) / 200. And the quotient of WIDTH mode is computed in
  \<^verbatim>\<open>unsigned int\<close>: with three pages in a row and a padding of 100 in a view 150 wide,
  150 - 2 * 100 wraps around to 4294967246 and the scale is 4294967246 / 300, while the
  formula of the claim gives - 1 / 6.
\<close>

theorem adjust_window_scale_counterexample:
  "\<not> (real (unat (cell_height two_column_layout)) / real (unat (cell_width two_column_layout))
       < real (unat (view_height (adjust_example_view False)))
           / real (unat (view_width (adjust_example_view False)))) \<and>
   view_scale (fst (sc_adjust_window (adjust_example_view False) two_column_layout
                      ZATHURA_ADJUST_BESTFIT a_document_view)) = Finite (149 / 200) \<and>
   real (unat (view_height (adjust_example_view False)))
     / real (unat (cell_height two_column_layout)) = 1 \<and>
   view_scale (fst (sc_adjust_window (adjust_example_view False) three_column_layout
                      ZATHURA_ADJUST_WIDTH a_document_view)) = Finite (4294967246 / 300) \<and>
   spec_width_scale 150 3 100 100 = - 1 / 6"
  by (simp add: sc_adjust_window_def adjust_example_defs view_width_def view_height_def
      width_scale_def scrollbar_correction_def double_div_def spec_width_scale_def Let_def)

text \<open>
  C5, amended: with a loaded document, on inputs where the \<^verbatim>\<open>unsigned int\<close> arithmetic of
  the quotient does not wrap around and its divisor is not zero (at least one page per
  row, a cell width that is not zero, (pagesPerRow - 1) * padding at most the width used,
  pagesPerRow * unscaledCellWidth below 2 ^ 32), the scale of WIDTH mode is
  (w - (pagesPerRow - 1) * padding) / (pagesPerRow * unscaledCellWidth), where the width
  used \<open>w\<close> is the width of the view, or that width less the width of the vertical
  scrollbar exactly when scrollbars are shown, the canvas at the first scale is taller
  than the view, and the scrollbar exists with a width that is positive and below the
  width of the view (one correction, not repeated). In BESTFIT mode the scale is the one
  of WIDTH mode exactly when cellHeight / unscaledCanvasWidth < viewHeight / viewWidth as
  \<^verbatim>\<open>double\<close>s, the canvas width being that of the whole row of pages, and the \<^verbatim>\<open>double\<close>
  quotient viewHeight / unscaledCellHeight otherwise. With divisors that are not zero the
  comparison and the last quotient are those of the reals; a zero divisor gives an
  infinity or NaN, and no comparison with NaN holds. What the source computes when the
  arithmetic wraps around is left out.
\<close>

theorem adjust_window_scale:
  "(let width = view_width v;
        height = view_height v;
        canvas_width = snd (document_size l (Finite 1) (cell_height l) (cell_width l));
        canvas_height =
          fst (document_size l (width_scale l width) (cell_height l) (cell_width l));
        used_width = (case scrollbar_correction v l of
                        None \<Rightarrow> width
                      | Some w \<Rightarrow> width - w);
        narrow = double_less
                   (double_div (real (unat (cell_height l))) (real (unat canvas_width)))
                   (double_div (real (unat height)) (real (unat width)));
        scale = view_scale (fst (sc_adjust_window v l n d))
    in (n = ZATHURA_ADJUST_WIDTH \<or> (n = ZATHURA_ADJUST_BESTFIT \<and> narrow) \<longrightarrow>
          scale = width_scale l used_width \<and>
          (no_wrap l used_width \<longrightarrow>
             scale = Finite (spec_width_scale (real (unat used_width))
                       (real (unat (pages_per_row l))) (real (unat (layout_padding l)))
                       (real (unat (cell_width l)))))) \<and>
       (n = ZATHURA_ADJUST_BESTFIT \<and> \<not> narrow \<longrightarrow>
          scale = double_div (real (unat height)) (real (unat (cell_height l))) \<and>
          (cell_height l \<noteq> 0 \<longrightarrow>
             scale = Finite (real (unat height) / real (unat (cell_height l))))) \<and>
       (canvas_width \<noteq> 0 \<and> width \<noteq> 0 \<longrightarrow>
          (narrow \<longleftrightarrow>
             real (unat (cell_height l)) / real (unat canvas_width)
               < real (unat height) / real (unat width))) \<and>
       (n = ZATHURA_ADJUST_WIDTH \<or> n = ZATHURA_ADJUST_BESTFIT \<longrightarrow>
          snd (sc_adjust_window v l n d) \<and>
          view_adjust_mode (fst (sc_adjust_window v l n d)) = n) \<and>
       (\<forall>w. scrollbar_correction v l = Some w \<longleftrightarrow>
          show_scrollbars v \<and> height < canvas_height \<and>
          vscrollbar_width v = Some w \<and> 0 <s w \<and> w < width) \<and>
       (\<forall>w. scrollbar_correction v l = Some w \<longrightarrow>
          unat used_width = unat width - unat w))"
proof -
  let ?used = "case scrollbar_correction v l of
                 None \<Rightarrow> view_width v
               | Some w \<Rightarrow> view_width v - w"
  let ?narrow = "double_less
      (double_div (real (unat (cell_height l)))
         (real (unat (snd (document_size l (Finite 1) (cell_height l) (cell_width l))))))
      (double_div (real (unat (view_height v))) (real (unat (view_width v))))"
  let ?scale = "view_scale (fst (sc_adjust_window v l n d))"
  have fit: "?scale = width_scale l ?used"
    if "n = ZATHURA_ADJUST_WIDTH \<or> (n = ZATHURA_ADJUST_BESTFIT \<and> ?narrow)"
    using that by (auto simp: sc_adjust_window_def Let_def split: option.splits)
  have fit_spec: "?scale = Finite (spec_width_scale (real (unat ?used))
        (real (unat (pages_per_row l))) (real (unat (layout_padding l)))
        (real (unat (cell_width l))))"
    if "n = ZATHURA_ADJUST_WIDTH \<or> (n = ZATHURA_ADJUST_BESTFIT \<and> ?narrow)"
      and "no_wrap l ?used"
    using fit [OF that(1)] width_scale_spec [OF that(2)] by simp
  have high: "?scale = double_div (real (unat (view_height v))) (real (unat (cell_height l)))"
    if "n = ZATHURA_ADJUST_BESTFIT" "\<not> ?narrow"
    using that by (auto simp: sc_adjust_window_def Let_def split: option.splits)
  have high_real: "?scale = Finite (real (unat (view_height v)) / real (unat (cell_height l)))"
    if "n = ZATHURA_ADJUST_BESTFIT" "\<not> ?narrow" "cell_height l \<noteq> 0"
  proof -
    have nz: "real (unat (cell_height l)) \<noteq> 0" using that(3) by (rule real_unat_nonzero)
    show ?thesis using high [OF that(1,2)] unfolding double_div_finite [OF nz] .
  qed
  have ratio: "?narrow \<longleftrightarrow>
      real (unat (cell_height l))
          / real (unat (snd (document_size l (Finite 1) (cell_height l) (cell_width l))))
        < real (unat (view_height v)) / real (unat (view_width v))"
    if "snd (document_size l (Finite 1) (cell_height l) (cell_width l)) \<noteq> 0"
      and "view_width v \<noteq> 0"
  proof -
    have canvas:
      "real (unat (snd (document_size l (Finite 1) (cell_height l) (cell_width l)))) \<noteq> 0"
      using that(1) by (rule real_unat_nonzero)
    have view: "real (unat (view_width v)) \<noteq> 0"
      using that(2) by (rule real_unat_nonzero)
    show ?thesis
      unfolding double_div_finite [OF canvas] double_div_finite [OF view] double_less.simps
      by (rule refl)
  qed
  have modes: "snd (sc_adjust_window v l n d) \<and>
      view_adjust_mode (fst (sc_adjust_window v l n d)) = n"
    if "n = ZATHURA_ADJUST_WIDTH \<or> n = ZATHURA_ADJUST_BESTFIT"
    using that by (auto simp: sc_adjust_window_def Let_def split: option.splits)
  have used: "unat ?used = unat (view_width v) - unat w"
    if "scrollbar_correction v l = Some w" for w
    using scrollbar_correction_width [OF that] that by simp
  show ?thesis
    unfolding Let_def
    using fit fit_spec high high_real ratio modes used scrollbar_correction_iff [of v l]
    by (intro conjI impI allI) blast+
qed

theorem adjust_window_scale_witness:
  "view_scale (fst (sc_adjust_window (adjust_example_view False) two_column_layout
                      ZATHURA_ADJUST_BESTFIT a_document_view)) = Finite (149 / 200) \<and>
   view_scale (fst (sc_adjust_window (adjust_example_view True) one_column_layout
                      ZATHURA_ADJUST_WIDTH a_document_view)) = Finite (140 / 100) \<and>
   scrollbar_correction (adjust_example_view True) one_column_layout = Some 10 \<and>
   view_scale (fst (sc_adjust_window (adjust_example_view False) one_column_layout
                      ZATHURA_ADJUST_BESTFIT a_document_view)) = Finite 1 \<and>
   view_scale (fst (sc_adjust_window zero_width_view one_column_layout
                      ZATHURA_ADJUST_BESTFIT a_document_view)) = Finite 0"
proof -
  let ?narrow = "\<lambda>v l. double_less
      (double_div (real (unat (cell_height l)))
         (real (unat (snd (document_size l (Finite 1) (cell_height l) (cell_width l))))))
      (double_div (real (unat (view_height v))) (real (unat (view_width v))))"
  have narrow: "?narrow (adjust_example_view False) two_column_layout"
    by (simp add: adjust_example_defs view_height_def view_width_def double_div_def)
  have none: "scrollbar_correction (adjust_example_view False) two_column_layout = None"
    by (simp add: scrollbar_correction_def adjust_example_defs)
  have fits2: "no_wrap two_column_layout (view_width (adjust_example_view False))"
    by (simp add: no_wrap_def adjust_example_defs view_width_def)
  have some: "scrollbar_correction (adjust_example_view True) one_column_layout = Some 10"
    by (simp add: scrollbar_correction_def adjust_example_defs view_width_def
        view_height_def width_scale_def double_div_def word_sless_alt Let_def)
  have fits1: "no_wrap one_column_layout (view_width (adjust_example_view True) - 10)"
    by (simp add: no_wrap_def adjust_example_defs view_width_def)
  have wide: "\<not> ?narrow (adjust_example_view False) one_column_layout"
    by (simp add: adjust_example_defs view_height_def view_width_def double_div_def)
  have height: "cell_height one_column_layout \<noteq> 0"
    by (simp add: one_column_layout_def)
  have infinite: "?narrow zero_width_view one_column_layout"
    by (simp add: adjust_example_defs view_height_def view_width_def double_div_def)
  have none0: "scrollbar_correction zero_width_view one_column_layout = None"
    by (simp add: scrollbar_correction_def adjust_example_defs)
  have first: "view_scale (fst (sc_adjust_window (adjust_example_view False) two_column_layout
                      ZATHURA_ADJUST_BESTFIT a_document_view)) = Finite (149 / 200)"
    using adjust_window_scale [where n = ZATHURA_ADJUST_BESTFIT
        and v = "adjust_example_view False" and l = two_column_layout
        and d = a_document_view] narrow none fits2
    by (simp add: Let_def)
       (simp add: view_width_def adjust_example_defs spec_width_scale_def no_wrap_def
         width_scale_def double_div_def)
  have second: "view_scale (fst (sc_adjust_window (adjust_example_view True) one_column_layout
                      ZATHURA_ADJUST_WIDTH a_document_view)) = Finite (140 / 100)"
    using adjust_window_scale [where n = ZATHURA_ADJUST_WIDTH
        and v = "adjust_example_view True" and l = one_column_layout
        and d = a_document_view] some fits1
    by (simp add: Let_def)
       (simp add: view_width_def adjust_example_defs spec_width_scale_def no_wrap_def
         width_scale_def double_div_def)
  have third: "view_scale (fst (sc_adjust_window (adjust_example_view False) one_column_layout
                      ZATHURA_ADJUST_BESTFIT a_document_view)) = Finite 1"
    using adjust_window_scale [where n = ZATHURA_ADJUST_BESTFIT
        and v = "adjust_example_view False" and l = one_column_layout
        and d = a_document_view] wide height
    by (simp add: Let_def) (simp add: view_height_def adjust_example_defs double_div_def)
  have fourth: "view_scale (fst (sc_adjust_window zero_width_view one_column_layout
                      ZATHURA_ADJUST_BESTFIT a_document_view)) = Finite 0"
    using adjust_window_scale [where n = ZATHURA_ADJUST_BESTFIT
        and v = zero_width_view and l = one_column_layout
        and d = a_document_view] infinite none0
    by (simp add: Let_def)
       (simp add: view_width_def adjust_example_defs width_scale_def double_div_def)
  show ?thesis using first second third fourth some by simp
qed

section \<open>Bisection\<close>

lemmas bisect_eval =
  sc_bisect_def bisect_after_arguments_def bisect_process_arguments_def bisect_example_def
  zathura_jumplist_save_def bisect_previous_jumps_def zathura_jumplist_has_previous_def
  bisect_switch_def zathura_jumplist_add_def zathura_jumplist_current_def page_set_def
  current_position_def jump_at_def Let_def

text \<open>
  The look at the previous jumps gives the state back as it was, provided the cursor
  points into the list.
\<close>

lemma bisect_previous_jumps_restores:
  assumes "jumplist_cur z < length (jumplist z)"
  shows "fst (bisect_previous_jumps z) = z"
  using assms
  by (auto simp: bisect_previous_jumps_def zathura_jumplist_has_previous_def
      zathura_jumplist_backward_def zathura_jumplist_forward_def Let_def split_def
      split: option.splits)

text \<open>
  C3, as the claim states it, fails on the direction: the source chooses Backward when
  the target \<open>t - 1\<close> lies after the original current page (the bisection then runs from
  the target back towards the page the user came from), and Forward otherwise. From page 5
  of ten pages, the target \<open>t = 3\<close> precedes the current page and the direction is
  Forward, whatever the argument says.
\<close>

theorem bisect_direction_counterexample:
  "(0::u32) < 3 \<and> (3::u32) \<le> number_of_pages (bisect_example 5) \<and>
   (3::u32) - 1 < current_page_number (bisect_example 5) \<and>
   snd (bisect_after_arguments (bisect_example 5) BACKWARD 3) = FORWARD"
  by (simp add: bisect_after_arguments_def bisect_process_arguments_def bisect_example_def
      zathura_jumplist_save_def)

text \<open>
  C3, amended: when an explicit target page \<open>t\<close> (1-based, 0 < t \<le> numberOfPages) is
  supplied, the operation, after saving the current position, jumps to page \<open>t - 1\<close> and
  records it via add(), and sets the direction to Backward if \<open>t - 1\<close> comes after the
  original current page, else to Forward. The current page is \<open>t - 1\<close> afterwards, and
  (with a jumplist of positive capacity) so is the page of the entry under the cursor.
\<close>

theorem bisect_explicit_target:
  assumes "0 < t" and "t \<le> number_of_pages z"
  shows "bisect_after_arguments z n t =
           (zathura_jumplist_add (page_set (zathura_jumplist_save z) (t - 1)),
            if t - 1 > current_page_number z then BACKWARD else FORWARD) \<and>
         current_page_number (fst (bisect_after_arguments z n t)) = t - 1 \<and>
         (0 < jumplist_max z \<longrightarrow>
            zathura_jumplist_current (fst (bisect_after_arguments z n t)) =
              Some \<lparr> jump_page = t - 1, jump_x = position_x z, jump_y = position_y z \<rparr>)"
proof -
  have eq: "bisect_after_arguments z n t =
           (zathura_jumplist_add (page_set (zathura_jumplist_save z) (t - 1)),
            if t - 1 > current_page_number z then BACKWARD else FORWARD)"
    using assms by (simp add: bisect_after_arguments_def bisect_process_arguments_def)
  have page: "current_page_number
      (zathura_jumplist_add (page_set (zathura_jumplist_save z) (t - 1))) = t - 1"
    by (simp add: zathura_jumplist_add_def page_set_def Let_def)
  have entry: "0 < jumplist_max z \<Longrightarrow>
     zathura_jumplist_current (zathura_jumplist_add (page_set (zathura_jumplist_save z) (t - 1)))
       = Some \<lparr> jump_page = t - 1, jump_x = position_x z, jump_y = position_y z \<rparr>"
    by (cases "jumplist z = []")
       (auto simp: zathura_jumplist_current_def zathura_jumplist_add_def page_set_def Let_def
         zathura_jumplist_save_def current_position_def nth_append nth_tl min_def)
  show ?thesis using eq page entry by simp
qed

theorem bisect_explicit_target_witness:
  "(0::u32) < 8 \<and> (8::u32) \<le> number_of_pages (bisect_example 2) \<and>
   snd (bisect_after_arguments (bisect_example 2) FORWARD 8) = BACKWARD \<and>
   current_page_number (fst (bisect_after_arguments (bisect_example 2) FORWARD 8)) = 7 \<and>
   zathura_jumplist_current (fst (bisect_after_arguments (bisect_example 2) FORWARD 8))
     = Some (jump_at 7)"
proof -
  have pos: "(0::u32) < 8" by simp
  have le: "(8::u32) \<le> number_of_pages (bisect_example 2)"
    by (simp add: bisect_example_def)
  note target = bisect_explicit_target [OF pos le, of FORWARD]
  have "snd (bisect_after_arguments (bisect_example 2) FORWARD 8) =
      (if 8 - 1 > current_page_number (bisect_example 2) then BACKWARD else FORWARD)"
    by (simp only: target [THEN conjunct1] snd_conv)
  then have direction: "snd (bisect_after_arguments (bisect_example 2) FORWARD 8) = BACKWARD"
    by (simp add: bisect_example_def)
  have page: "current_page_number (fst (bisect_after_arguments (bisect_example 2) FORWARD 8)) = 7"
    using target [THEN conjunct2, THEN conjunct1] by simp
  have capacity: "0 < jumplist_max (bisect_example 2)"
    by (simp add: bisect_example_def)
  have "zathura_jumplist_current (fst (bisect_after_arguments (bisect_example 2) FORWARD 8))
     = Some \<lparr> jump_page = 8 - 1, jump_x = position_x (bisect_example 2),
                jump_y = position_y (bisect_example 2) \<rparr>"
    using target [THEN conjunct2, THEN conjunct2] capacity by (rule mp)
  then have entry:
    "zathura_jumplist_current (fst (bisect_after_arguments (bisect_example 2) FORWARD 8))
       = Some (jump_at 7)"
    by (simp add: bisect_example_def jump_at_def)
  show ?thesis using pos le direction page entry by simp
qed

text \<open>
  C4: when neither the previous nor the second previous jump is an applicable anchor
  (Forward: the jump exists and the current page does not lie after its page; Backward: the
  jump exists and the current page does not lie before its page), the operation jumps to
  (curPage + numPages - 1) / 2 for Forward and to curPage / 2 for Backward, and records the
  jump via add(). \<open>curPage\<close> is the page after the arguments have been processed; the
  arithmetic is that of \<^verbatim>\<open>unsigned int\<close>, which is the arithmetic of the natural numbers
  for a document with at least one page whose page numbers fit into 32 bits. The look at
  the previous jumps leaves the state as it was.
\<close>

theorem bisect_fallback:
  assumes args: "bisect_after_arguments z n t = (z2, direction)"
    and prev: "bisect_previous_jumps z2 = (z3, have_prev, prev_page, have_prev2, prev2_page)"
  shows "(direction = FORWARD \<and> \<not> (have_prev \<and> current_page_number z2 \<le> prev_page) \<and>
          \<not> (have_prev2 \<and> current_page_number z2 \<le> prev2_page) \<longrightarrow>
            sc_bisect z n t =
              zathura_jumplist_add (page_set z3
                ((current_page_number z2 + number_of_pages z - 1) div 2))) \<and>
         (direction = BACKWARD \<and> \<not> (have_prev \<and> prev_page \<le> current_page_number z2) \<and>
          \<not> (have_prev2 \<and> prev2_page \<le> current_page_number z2) \<longrightarrow>
            sc_bisect z n t =
              zathura_jumplist_add (page_set z3 (current_page_number z2 div 2))) \<and>
         (jumplist_cur z2 < length (jumplist z2) \<longrightarrow> z3 = z2) \<and>
         (0 < number_of_pages z \<and>
          unat (current_page_number z2) + unat (number_of_pages z) \<le> 2 ^ 32 \<longrightarrow>
            unat ((current_page_number z2 + number_of_pages z - 1) div 2) =
              (unat (current_page_number z2) + unat (number_of_pages z) - 1) div 2) \<and>
         unat (current_page_number z2 div 2) = unat (current_page_number z2) div 2"
proof -
  have switch: "sc_bisect z n t =
      bisect_switch z3 (number_of_pages z) direction (current_page_number z2)
        have_prev prev_page have_prev2 prev2_page"
    by (simp add: sc_bisect_def args prev)
  have restore: "jumplist_cur z2 < length (jumplist z2) \<Longrightarrow> z3 = z2"
    using bisect_previous_jumps_restores [of z2] prev by simp
  have half: "unat (current_page_number z2 div 2) = unat (current_page_number z2) div 2"
    by (simp add: unat_div)
  show ?thesis
    using restore half
      unat_forward_midpoint [of "number_of_pages z" "current_page_number z2"]
    by (auto simp: switch bisect_switch_def)
qed

theorem bisect_fallback_witness:
  "sc_bisect (bisect_example 4) FORWARD 0 =
     (bisect_example 6) \<lparr> jumplist := [jump_at 4, jump_at 6], jumplist_cur := 1 \<rparr> \<and>
   sc_bisect (bisect_example 4) BACKWARD 0 =
     (bisect_example 2) \<lparr> jumplist := [jump_at 4, jump_at 2], jumplist_cur := 1 \<rparr> \<and>
   unat (((4::u32) + 10 - 1) div 2) = (4 + 10 - 1) div 2"
proof -
  let ?z2 = "(bisect_example 4) \<lparr> jumplist := [jump_at 4] \<rparr>"
  have forward: "bisect_after_arguments (bisect_example 4) FORWARD 0 = (?z2, FORWARD)"
    by (simp add: bisect_eval)
  have backward: "bisect_after_arguments (bisect_example 4) BACKWARD 0 = (?z2, BACKWARD)"
    by (simp add: bisect_eval)
  have prev: "bisect_previous_jumps ?z2 = (?z2, False, 0, False, 0)"
    by (simp add: bisect_eval)
  have f: "sc_bisect (bisect_example 4) FORWARD 0 =
      zathura_jumplist_add (page_set ?z2
        ((current_page_number ?z2 + number_of_pages (bisect_example 4) - 1) div 2))"
    using bisect_fallback [OF forward prev] by simp
  have b: "sc_bisect (bisect_example 4) BACKWARD 0 =
      zathura_jumplist_add (page_set ?z2 (current_page_number ?z2 div 2))"
    using bisect_fallback [OF backward prev] by simp
  have u: "unat ((current_page_number ?z2 + number_of_pages (bisect_example 4) - 1) div 2) =
      (unat (current_page_number ?z2) + unat (number_of_pages (bisect_example 4)) - 1) div 2"
    using bisect_fallback [OF forward prev] by (simp add: bisect_example_def)
  show ?thesis
    using u unfolding f b by (simp add: bisect_eval)
qed

section \<open>Search\<close>

lemmas search_eval =
  sc_search_def search_example_def search_diff_def zathura_document_get_page_def
  c_mod_def c_div_def Let_def zathura_jumplist_save_def zathura_jumplist_add_def
  current_position_def jump_at_def

lemma c_mod_nonneg: "0 \<le> a \<Longrightarrow> 0 < b \<Longrightarrow> c_mod a b = a mod b"
  by (simp add: c_mod_def c_div_def sgn_if minus_mult_div_eq_mod)

text \<open>An index that is not negative reaches a page: the remainder is below the page count.\<close>

lemma get_page_in_range:
  assumes "sint (number_of_pages z) = int (length (page_widgets z))"
    and "0 \<le> a" and "0 < sint (number_of_pages z)"
  shows "zathura_document_get_page z (c_mod a (sint (number_of_pages z)))
           = Some (nat (a mod sint (number_of_pages z)))"
  using assms by (simp add: zathura_document_get_page_def c_mod_nonneg nat_less_iff)

text \<open>
  The inner loop, entered with any counter from 1 to the number of pages: if the page
  that the counter reaches at \<open>num_pages\<close> has results, the loop is left through
  \<^verbatim>\<open>break\<close> with a target. Induction on the distance of the counter from \<open>num_pages\<close>.
\<close>

lemma search_next_page_returns:
  assumes ready: "sint (number_of_pages z) = int (length (page_widgets z))"
    and n: "num_pages = sint (number_of_pages z)"
    and cur: "0 \<le> cur_page"
    and diff: "diff = 1 \<or> diff = - 1"
    and pid: "0 \<le> page_id" "page_id < num_pages"
    and k: "1 \<le> k" "k \<le> num_pages"
    and hit: "search_length (page_widgets z !
                 nat ((cur_page + diff * (page_id + num_pages) + 2 * num_pages) mod num_pages))
               \<noteq> 0"
  shows "\<exists>z' t. search_next_page num_pages cur_page diff page_id z k = Some (Inr (z', Some t))
           \<and> page_widgets z' = page_widgets z"
  using ready n k hit
proof (induction "nat (num_pages - k)" arbitrary: z k)
  case 0
  then have keq: "k = num_pages" by simp
  have pos: "0 < num_pages" using pid by simp
  have nonneg: "0 \<le> cur_page + diff * (page_id + k) + 2 * num_pages"
    using cur diff pid keq by auto
  have fetched: "zathura_document_get_page z
        (c_mod (cur_page + diff * (page_id + k) + 2 * num_pages) num_pages)
      = Some (nat ((cur_page + diff * (page_id + k) + 2 * num_pages) mod num_pages))"
    using get_page_in_range [of z, OF "0.prems"(1) nonneg] pos "0.prems"(2) by simp
  show ?case
    using "0.prems"(5) pid fetched keq
    by (subst search_next_page.simps) (simp add: Let_def)
next
  case (Suc m)
  then have klt: "k < num_pages" by simp
  have pos: "0 < num_pages" using pid by simp
  have nonneg: "0 \<le> cur_page + diff * (page_id + k) + 2 * num_pages"
    using cur diff pid klt Suc.prems(3) by auto
  let ?i = "nat ((cur_page + diff * (page_id + k) + 2 * num_pages) mod num_pages)"
  have fetched: "zathura_document_get_page z
        (c_mod (cur_page + diff * (page_id + k) + 2 * num_pages) num_pages) = Some ?i"
    using get_page_in_range [of z, OF Suc.prems(1) nonneg] pos Suc.prems(2) by simp
  let ?z = "z \<lparr> current_page_number := word_of_nat ?i \<rparr>"
  show ?case
  proof (cases "search_length (page_widgets z ! ?i) = 0")
    case False
    then show ?thesis
      using pid fetched by (subst search_next_page.simps) (simp add: Let_def)
  next
    case True
    have m: "m = nat (num_pages - (k + 1))" using Suc.hyps(2) by simp
    have "\<exists>z' t. search_next_page num_pages cur_page diff page_id ?z (k + 1)
             = Some (Inr (z', Some t)) \<and> page_widgets z' = page_widgets ?z"
      using Suc.hyps(1) [OF m, of ?z] Suc.prems klt by simp
    then show ?thesis
      using True pid fetched by (subst search_next_page.simps) (simp add: Let_def)
  qed
qed

text \<open>
  After \<open>num_pages\<close> steps the inner loop is back on the page that the outer loop left.
\<close>

lemma search_revisits:
  fixes cur_page diff page_id num_pages :: int
  shows "(cur_page + diff * (page_id + num_pages) + 2 * num_pages) mod num_pages
           = (cur_page + diff * page_id + num_pages) mod num_pages"
proof -
  have "cur_page + diff * (page_id + num_pages) + 2 * num_pages
          = (cur_page + diff * page_id + num_pages) + (diff + 1) * num_pages"
    by (simp add: algebra_simps)
  then show ?thesis by (metis mod_mult_self1)
qed

text \<open>The outer loop returns from every counter, without a fault.\<close>

lemma search_scan_returns:
  assumes ready: "sint (number_of_pages z) = int (length (page_widgets z))"
    and n: "num_pages = sint (number_of_pages z)"
    and cur: "0 \<le> cur_page"
    and diff: "diff = 1 \<or> diff = - 1"
    and pid: "0 \<le> page_id"
  shows "\<exists>z' t. search_scan num_pages cur_page diff z page_id = Some (Inr (z', t))"
  using pid
proof (induction "nat (num_pages - page_id)" arbitrary: page_id)
  case 0
  then show ?case by (subst search_scan.simps) simp
next
  case (Suc m)
  then have lt: "page_id < num_pages" by simp
  have pos: "0 < num_pages" using lt Suc.prems by simp
  have m: "m = nat (num_pages - (page_id + 1))" using Suc.hyps(2) by simp
  have rec: "\<exists>z' t. search_scan num_pages cur_page diff z (page_id + 1) = Some (Inr (z', t))"
    using Suc.hyps(1) [OF m] Suc.prems by simp
  have nonneg: "0 \<le> cur_page + diff * page_id + num_pages"
    using cur diff lt Suc.prems by auto
  let ?i = "nat ((cur_page + diff * page_id + num_pages) mod num_pages)"
  have fetched: "zathura_document_get_page z
        (c_mod (cur_page + diff * page_id + num_pages) num_pages) = Some ?i"
    using get_page_in_range [of z, OF ready nonneg] pos n by simp
  have ilt: "?i < length (page_widgets z)"
    using pos n ready by (simp add: nat_less_iff)
  let ?z1 = "zathura_jumplist_save z"
  let ?z2 = "?z1 \<lparr> page_widgets :=
               (page_widgets ?z1) [?i := (page_widgets ?z1 ! ?i) \<lparr> search_current := - 1 \<rparr>] \<rparr>"
  have saved: "page_widgets ?z1 = page_widgets z" "number_of_pages ?z1 = number_of_pages z"
    by (simp_all add: zathura_jumplist_save_def)
  show ?case
  proof (cases "search_length (page_widgets z ! ?i) = 0
                  \<or> search_current (page_widgets z ! ?i) = - 1")
    case True
    then show ?thesis
      using rec lt fetched by (subst search_scan.simps) (auto simp: Let_def)
  next
    case False
    have hit: "search_length (page_widgets ?z2 !
                 nat ((cur_page + diff * (page_id + num_pages) + 2 * num_pages) mod num_pages))
               \<noteq> 0"
    proof -
      have same: "nat ((cur_page + diff * (page_id + num_pages) + 2 * num_pages) mod num_pages)
                    = ?i"
        by (simp only: search_revisits)
      have kept: "search_length (page_widgets ?z2 ! ?i) = search_length (page_widgets z ! ?i)"
        using ilt by (simp add: saved)
      show ?thesis unfolding same kept using False by blast
    qed
    have "\<exists>z' t. search_next_page num_pages cur_page diff page_id ?z2 1
              = Some (Inr (z', Some t)) \<and> page_widgets z' = page_widgets ?z2"
      using search_next_page_returns
          [of ?z2 num_pages cur_page diff page_id 1, OF _ _ cur diff Suc.prems lt _ _ hit]
        ready n pos saved by simp
    then obtain z3 t
      where "search_next_page num_pages cur_page diff page_id ?z2 1 = Some (Inr (z3, Some t))"
      by blast
    then show ?thesis
      using False lt fetched by (subst search_scan.simps) (simp add: Let_def)
  qed
qed

lemma search_first_advance:
  "sc_search (search_example 0 0 [] 0) FORWARD
     = Some (Inr (search_example 0 1 [] 0, Some (1, 1)))"
  apply (simp add: search_eval)
  apply (subst search_scan.simps, simp add: search_eval)
  apply (subst search_scan.simps, simp add: search_eval)
  done

lemma search_second_advance:
  "sc_search (search_example 0 1 [] 0) FORWARD
     = Some (Inr (search_example 1 0 [jump_at 0, jump_at 1] 1, Some (1, 0)))"
  apply (simp add: search_eval)
  apply (subst search_scan.simps, simp add: search_eval)
  apply (subst search_scan.simps, simp add: search_eval)
  apply (subst search_next_page.simps, simp add: search_eval)
  apply (subst search_next_page.simps, simp add: search_eval)
  apply (subst search_next_page.simps, simp add: search_eval)
  done

lemma search_third_advance:
  "sc_search (search_example 1 0 [jump_at 0, jump_at 1] 1) FORWARD
     = Some (Inr (search_example 1 1 [jump_at 0, jump_at 1] 1, Some (1, 1)))"
  apply (simp add: search_eval)
  apply (subst search_scan.simps, simp add: search_eval)
  done

text \<open>
  C7, as the claim states it, fails on its example: with the first result of page 1
  active (index 0), the first advance from page 0 moves the cursor on within page 1 and
  lands on result index 1, not on index 0.
\<close>

theorem search_first_advance_counterexample:
  "search_current (page_widgets (search_example 0 0 [] 0) ! 1) = 0 \<and>
   landing (sc_search (search_example 0 0 [] 0) FORWARD) = Some (1, 1) \<and>
   landing (sc_search (search_example 0 0 [] 0) FORWARD) \<noteq> Some (1, 0)"
  by (simp add: search_first_advance landing_def) (simp add: search_example_def)

text \<open>
  C7, amended: the step of the page scan is +1 for a Forward advance and -1 for any
  other, negated when the last search went Backward, and the scan is cyclic: at counter
  \<open>page_id\<close> it looks at page (cur_page + diff * page_id) modulo the number of pages. On a
  document of 3 pages with result counts [0, 2, 0], with the first result of page 1
  active, advance(Forward) from page 0 lands on page 1, result index 1; a second
  advance(Forward) leaves the page, wraps around the document and lands on page 1, result
  index 0 again (recording the jump); a third lands on page 1, result index 1.
\<close>

theorem search_advance:
  "search_diff FORWARD previous = (if previous = BACKWARD then - 1 else 1) \<and>
   (n \<noteq> FORWARD \<longrightarrow> search_diff n previous = (if previous = BACKWARD then 1 else - 1)) \<and>
   (search_ready z \<and> 0 \<le> page_id \<and> page_id < sint (number_of_pages z) \<and>
    (diff = 1 \<or> diff = - 1) \<longrightarrow>
      zathura_document_get_page z
        (c_mod (sint (current_page_number z) + diff * page_id + sint (number_of_pages z))
           (sint (number_of_pages z)))
        = Some (nat ((sint (current_page_number z) + diff * page_id)
                       mod sint (number_of_pages z)))) \<and>
   sc_search (search_example 0 0 [] 0) FORWARD
     = Some (Inr (search_example 0 1 [] 0, Some (1, 1))) \<and>
   sc_search (search_example 0 1 [] 0) FORWARD
     = Some (Inr (search_example 1 0 [jump_at 0, jump_at 1] 1, Some (1, 0))) \<and>
   sc_search (search_example 1 0 [jump_at 0, jump_at 1] 1) FORWARD
     = Some (Inr (search_example 1 1 [jump_at 0, jump_at 1] 1, Some (1, 1)))"
proof -
  have cyclic: "zathura_document_get_page z
        (c_mod (sint (current_page_number z) + diff * page_id + sint (number_of_pages z))
           (sint (number_of_pages z)))
        = Some (nat ((sint (current_page_number z) + diff * page_id)
                       mod sint (number_of_pages z)))"
    if "search_ready z" "0 \<le> page_id" "page_id < sint (number_of_pages z)"
      "diff = 1 \<or> diff = - 1"
  proof -
    have ready: "sint (number_of_pages z) = int (length (page_widgets z))"
      and cur: "0 \<le> sint (current_page_number z)"
      using that(1) by (simp_all add: search_ready_def)
    have pos: "0 < sint (number_of_pages z)" using that(2,3) by simp
    have nonneg: "0 \<le> sint (current_page_number z) + diff * page_id + sint (number_of_pages z)"
      using cur that(2,3,4) by auto
    show ?thesis
      using get_page_in_range [OF ready nonneg pos] by simp
  qed
  show ?thesis
    using cyclic search_first_advance search_second_advance search_third_advance
    by (simp add: search_diff_def)
qed

theorem search_advance_witness:
  "search_diff BACKWARD BACKWARD = 1 \<and> search_diff BACKWARD FORWARD = - 1 \<and>
   search_ready (search_example 0 0 [] 0) \<and>
   zathura_document_get_page (search_example 0 0 [] 0) (c_mod (0 + - 1 * 2 + 3) 3) = Some 1"
proof -
  have ready: "search_ready (search_example 0 0 [] 0)"
    by (simp add: search_ready_def search_example_def)
  have pages: "sint (number_of_pages (search_example 0 0 [] 0)) = 3"
    and cur: "sint (current_page_number (search_example 0 0 [] 0)) = 0"
    by (simp_all add: search_example_def)
  show ?thesis
    using search_advance [where n = BACKWARD and previous = BACKWARD
        and z = "search_example 0 0 [] 0" and page_id = 2 and diff = "- 1"]
      search_advance [where n = BACKWARD and previous = FORWARD
        and z = "search_example 0 0 [] 0" and page_id = 2 and diff = "- 1"]
      ready
    by (simp add: pages cur)
qed

text \<open>
  C10: the search advance returns on every state with one widget per page (and a page
  count and current page that are not negative as \<^verbatim>\<open>int\<close>), and it returns without
  having fetched a missing page. In particular the inner loop, whose guard never changes,
  is always left through \<^verbatim>\<open>break\<close>: started on a page with results, it is back on that
  page after as many steps as the document has pages, and finds a target there at the
  latest.
\<close>

theorem search_terminates:
  assumes "search_ready z"
  shows "(\<exists>z' target. sc_search z n = Some (Inr (z', target))) \<and>
         (\<forall>page_id diff.
            0 \<le> page_id \<and> page_id < sint (number_of_pages z) \<and> (diff = 1 \<or> diff = - 1) \<and>
            search_length (page_widgets z !
              nat ((sint (current_page_number z) + diff * page_id + sint (number_of_pages z))
                     mod sint (number_of_pages z))) \<noteq> 0 \<longrightarrow>
            (\<exists>z' t. search_next_page (sint (number_of_pages z)) (sint (current_page_number z))
                       diff page_id z 1 = Some (Inr (z', Some t))))"
proof -
  have ready: "sint (number_of_pages z) = int (length (page_widgets z))"
    and cur: "0 \<le> sint (current_page_number z)"
    using assms by (simp_all add: search_ready_def)
  have d: "search_diff n (search_direction z) = 1 \<or> search_diff n (search_direction z) = - 1"
    by (simp add: search_diff_def Let_def)
  obtain z' t where scan: "search_scan (sint (number_of_pages z)) (sint (current_page_number z))
      (search_diff n (search_direction z)) z 0 = Some (Inr (z', t))"
    using search_scan_returns [of z _ "sint (current_page_number z)" _ 0, OF ready refl cur d]
    by auto
  have whole: "\<exists>z' target. sc_search z n = Some (Inr (z', target))"
    using scan by (cases t) (auto simp: sc_search_def Let_def)
  have inner: "\<exists>z' t. search_next_page (sint (number_of_pages z))
        (sint (current_page_number z)) diff page_id z 1 = Some (Inr (z', Some t))"
    if "0 \<le> page_id" "page_id < sint (number_of_pages z)" "diff = 1 \<or> diff = - 1"
      "search_length (page_widgets z !
              nat ((sint (current_page_number z) + diff * page_id + sint (number_of_pages z))
                     mod sint (number_of_pages z))) \<noteq> 0"
    for page_id diff
  proof -
    have hit: "search_length (page_widgets z !
        nat ((sint (current_page_number z) + diff * (page_id + sint (number_of_pages z))
               + 2 * sint (number_of_pages z)) mod sint (number_of_pages z))) \<noteq> 0"
      unfolding search_revisits using that(4) .
    have one: "1 \<le> sint (number_of_pages z)" using that(1,2) by simp
    show ?thesis
      using search_next_page_returns [OF ready refl cur that(3) that(1) that(2) _ one hit]
      by auto
  qed
  show ?thesis using whole inner by blast
qed

theorem search_terminates_witness:
  "search_ready (search_example 0 1 [] 0) \<and>
   (\<exists>z' target. sc_search (search_example 0 1 [] 0) FORWARD = Some (Inr (z', target))) \<and>
   (\<exists>z' t. search_next_page 3 0 1 1 (search_example 0 1 [] 0) 1 = Some (Inr (z', Some t)))"
proof -
  have ready: "search_ready (search_example 0 1 [] 0)"
    by (simp add: search_ready_def search_example_def)
  have pages: "sint (number_of_pages (search_example 0 1 [] 0)) = 3"
    and cur: "sint (current_page_number (search_example 0 1 [] 0)) = 0"
    by (simp_all add: search_example_def)
  have results: "search_length (page_widgets (search_example 0 1 [] 0) ! nat ((0 + 1 * 1 + 3) mod 3))
      \<noteq> 0"
    by (simp add: search_example_def)
  note returns = search_terminates [OF ready, of FORWARD]
  have "\<exists>z' t. search_next_page 3 0 1 1 (search_example 0 1 [] 0) 1 = Some (Inr (z', Some t))"
    using returns [THEN conjunct2, rule_format, of 1 1] results
    by (simp add: pages cur)
  then show ?thesis using ready returns [THEN conjunct1] by simp
qed

end
